(* ===== verification/Prelude.thy ===== *)
theory Prelude
  imports Main "HOL-Library.Sublist"
begin

text \<open>
  Shared vocabulary of the development: the world a Python 2 plugin acts on (a file
  system, the trace of shell commands it spawned, the XML documents it wrote), the
  exceptions it can raise, a state-and-exception monad \<open>'a py\<close> that threads the
  world through a method body the way the interpreter does, the file operations the
  plugin calls (\<open>open(p, 'a')\<close>, \<open>open(p, 'wb')\<close>, \<open>open(p, 'r')\<close>,
  \<open>os.remove\<close>, \<open>os.path.isfile\<close>), \<open>subprocess.Popen\<close> run to completion
  against an oracle for the shell, and the ElementTree operations
  (\<open>Element\<close>, \<open>SubElement\<close>, \<open>set\<close>) that the XML writer uses.
  These model the Python library, not code of the repository.
\<close>

named_theorems py_simps "unfolding rules of the py monad and the world operations"

subsection \<open>Exceptions, processes and the world\<close>

type_synonym fsys = "string \<rightharpoonup> string"

datatype exc =
    ProcError string   \<comment> \<open>raised by \<open>subprocess.Popen\<close>/\<open>communicate\<close>: \<open>str(sys.exc_info())\<close>\<close>
  | IOError string     \<comment> \<open>\<open>open(p, 'r')\<close> on a missing file \<open>p\<close>\<close>
  | OSError string     \<comment> \<open>\<open>os.remove(p)\<close> on a missing file \<open>p\<close>\<close>
  | AttributeError string  \<comment> \<open>a method called on \<open>None\<close>\<close>
  | UnicodeDecodeError string  \<comment> \<open>\<open>s.decode('utf-8')\<close> on bytes \<open>s\<close> that are not UTF-8\<close>
  | UnicodeEncodeError string  \<comment> \<open>a unicode string with a non-ASCII character written to a text file\<close>

text \<open>
  A shell command run to completion either raises (the payload is what
  \<open>str(sys.exc_info())\<close> prints) or ends with the file system it leaves behind, its
  standard output, its standard error and its exit code.
\<close>

datatype proc_result =
    Raised string
  | Done fsys string string int

text \<open>
  The shell is an oracle: the outcome of a command may depend on the commands run
  before it, on the command and on the files. Two runs of one command can
  therefore differ, as the real \<open>cve-check-tool\<close> does when its network fetch fails
  once and succeeds on the retry.
\<close>

type_synonym shell = "string list \<Rightarrow> string \<Rightarrow> fsys \<Rightarrow> proc_result"

text \<open>What the trace keeps of a finished process: the exception message, or its
  standard output, standard error and exit code.\<close>

type_synonym outcome = "string + (string \<times> string \<times> int)"

definition outcome_of :: "proc_result \<Rightarrow> outcome" where
  "outcome_of r = (case r of Raised e \<Rightarrow> Inl e | Done fs out err rc \<Rightarrow> Inr (out, err, rc))"

text \<open>An ElementTree element: tag, attributes in insertion order, children.\<close>

datatype xml = Elem string "(string \<times> string) list" "xml list"

record world =
  files :: fsys
  trace :: "(string \<times> outcome) list"  \<comment> \<open>commands spawned and their outcomes, oldest first\<close>
  xml_out :: "string \<rightharpoonup> xml"  \<comment> \<open>XML documents written by \<open>tree.write\<close>\<close>

type_synonym 'a py = "world \<Rightarrow> (exc + 'a) \<times> world"

subsection \<open>The monad\<close>

definition ret :: "'a \<Rightarrow> 'a py" where
  "ret x w = (Inr x, w)"

definition raise :: "exc \<Rightarrow> 'a py" where
  "raise e w = (Inl e, w)"

definition bindp :: "'a py \<Rightarrow> ('a \<Rightarrow> 'b py) \<Rightarrow> 'b py" where
  "bindp m f w = (case m w of (Inl e, w') \<Rightarrow> (Inl e, w') | (Inr x, w') \<Rightarrow> f x w')"

definition seqp :: "unit py \<Rightarrow> 'b py \<Rightarrow> 'b py" where
  "seqp m n = bindp m (\<lambda>_. n)"

text \<open>
  \<open>try: body except: handler else: cont\<close>: an exception of the body goes to the
  handler; the continuation runs outside the \<open>try\<close>, so its exceptions propagate.
\<close>

definition try_else :: "'a py \<Rightarrow> (exc \<Rightarrow> 'b py) \<Rightarrow> ('a \<Rightarrow> 'b py) \<Rightarrow> 'b py" where
  "try_else body handler cont w =
     (case body w of (Inl e, w') \<Rightarrow> handler e w' | (Inr x, w') \<Rightarrow> cont x w')"

subsection \<open>Files\<close>

definition append_file :: "string \<Rightarrow> string \<Rightarrow> unit py" where
  "append_file p s w =
     (Inr (), w\<lparr>files := (files w)(p \<mapsto> (case files w p of None \<Rightarrow> s | Some c \<Rightarrow> c @ s))\<rparr>)"

definition write_file :: "string \<Rightarrow> string \<Rightarrow> unit py" where
  "write_file p s w = (Inr (), w\<lparr>files := (files w)(p \<mapsto> s)\<rparr>)"

definition read_file :: "string \<Rightarrow> string py" where
  "read_file p w = (case files w p of None \<Rightarrow> (Inl (IOError p), w) | Some c \<Rightarrow> (Inr c, w))"

definition remove_file :: "string \<Rightarrow> unit py" where
  "remove_file p w =
     (if files w p \<noteq> None then (Inr (), w\<lparr>files := (files w)(p := None)\<rparr>)
      else (Inl (OSError p), w))"

definition isfile :: "string \<Rightarrow> world \<Rightarrow> bool" where
  "isfile p w \<longleftrightarrow> files w p \<noteq> None"

text \<open>The content of a file, empty when it does not exist (\<open>open(p, 'a')\<close> creates it).\<close>

definition file_text :: "world \<Rightarrow> string \<Rightarrow> string" where
  "file_text w p = (case files w p of None \<Rightarrow> [] | Some c \<Rightarrow> c)"

text \<open>The world after \<open>s\<close> is appended to \<open>p\<close>.\<close>

definition appended :: "world \<Rightarrow> string \<Rightarrow> string \<Rightarrow> world" where
  "appended w p s = w\<lparr>files := (files w)(p \<mapsto> file_text w p @ s)\<rparr>"

definition write_xml :: "string \<Rightarrow> xml \<Rightarrow> unit py" where
  "write_xml p x w = (Inr (), w\<lparr>xml_out := (xml_out w)(p \<mapsto> x)\<rparr>)"

subsection \<open>Processes\<close>

text \<open>
  \<open>subprocess.Popen(cmd, shell=True, stdout=PIPE, stderr=PIPE)\<close> followed by
  \<open>communicate()\<close> (or \<open>wait()\<close> and \<open>stdout.read()\<close>): the command and its
  outcome are recorded in the trace whether or not it raises. The trace is ghost
  state: the program never reads it, the theorems do.
\<close>

definition popen :: "shell \<Rightarrow> string \<Rightarrow> (string \<times> string \<times> int) py" where
  "popen sh cmd w =
     (let r = sh (map fst (trace w)) cmd (files w) in
      case r of
        Raised e \<Rightarrow> (Inl (ProcError e), w\<lparr>trace := trace w @ [(cmd, outcome_of r)]\<rparr>)
      | Done fs out err rc \<Rightarrow> (Inr (out, err, rc), w\<lparr>files := fs, trace := trace w @ [(cmd, outcome_of r)]\<rparr>))"

subsection \<open>ElementTree\<close>

definition xml_element :: "string \<Rightarrow> (string \<times> string) list \<Rightarrow> xml" where
  "xml_element tag attrs = Elem tag attrs []"

primrec xml_subelement :: "xml \<Rightarrow> xml \<Rightarrow> xml" where
  "xml_subelement (Elem t a cs) c = Elem t a (cs @ [c])"

fun attr_set :: "(string \<times> string) list \<Rightarrow> string \<Rightarrow> string \<Rightarrow> (string \<times> string) list" where
  "attr_set [] k v = [(k, v)]"
| "attr_set ((k', v') # as) k v = (if k' = k then (k, v) # as else (k', v') # attr_set as k v)"

primrec xml_set :: "xml \<Rightarrow> string \<Rightarrow> string \<Rightarrow> xml" where
  "xml_set (Elem t a cs) k v = Elem t (attr_set a k v) cs"

primrec xml_children :: "xml \<Rightarrow> xml list" where
  "xml_children (Elem t a cs) = cs"

primrec xml_attrs :: "xml \<Rightarrow> (string \<times> string) list" where
  "xml_attrs (Elem t a cs) = a"

primrec xml_tag :: "xml \<Rightarrow> string" where
  "xml_tag (Elem t a cs) = t"

subsection \<open>Shared lemmas\<close>

declare ret_def [py_simps] raise_def [py_simps] bindp_def [py_simps] seqp_def [py_simps]
  try_else_def [py_simps] append_file_def [py_simps] write_file_def [py_simps]
  read_file_def [py_simps] remove_file_def [py_simps] isfile_def [py_simps]
  write_xml_def [py_simps] popen_def [py_simps] outcome_of_def [py_simps]

lemma append_file_eq: "append_file p s w = (Inr (), appended w p s)"
  by (simp add: append_file_def appended_def file_text_def split: option.splits)

lemma seqp_append_file [simp]: "seqp (append_file p s) m w = m (appended w p s)"
  by (simp add: seqp_def bindp_def append_file_eq)

lemma file_text_appended [simp]:
  "file_text (appended w p s) q = (if q = p then file_text w p @ s else file_text w q)"
  by (simp add: appended_def file_text_def)

lemma files_appended_other [simp]: "q \<noteq> p \<Longrightarrow> files (appended w p s) q = files w q"
  by (simp add: appended_def)

lemma files_appended_same [simp]: "files (appended w p s) p = Some (file_text w p @ s)"
  by (simp add: appended_def)

lemma trace_appended [simp]: "trace (appended w p s) = trace w"
  by (simp add: appended_def)

lemma xml_out_appended [simp]: "xml_out (appended w p s) = xml_out w"
  by (simp add: appended_def)

lemma those_map_Some: "those (map Some xs) = Some xs"
  by (induction xs) auto

lemma bindp_ret [simp]: "bindp (ret x) f = f x"
  by (rule ext) (simp add: bindp_def ret_def)

lemma bindp_raise [simp]: "bindp (raise e) f = raise e"
  by (rule ext) (simp add: bindp_def raise_def)

lemma bindp_assoc: "bindp (bindp m f) g = bindp m (\<lambda>x. bindp (f x) g)"
  by (rule ext) (simp add: bindp_def split: prod.splits sum.splits)

lemma bindp_Inr: "m w = (Inr x, w') \<Longrightarrow> bindp m f w = f x w'"
  by (simp add: bindp_def)

lemma seqp_remove_file: "files w p \<noteq> None \<Longrightarrow> seqp (remove_file p) m w = m (w\<lparr>files := (files w)(p := None)\<rparr>)"
  by (simp add: seqp_def bindp_def remove_file_def)

lemma attr_set_lookup [simp]: "map_of (attr_set as k v) k = Some v"
  by (induction as) auto

lemma attr_set_other [simp]: "k' \<noteq> k \<Longrightarrow> map_of (attr_set as k v) k' = map_of as k'"
  by (induction as) auto

lemma xml_children_subelement [simp]:
  "xml_children (xml_subelement x c) = xml_children x @ [c]"
  by (cases x) simp

lemma xml_children_set [simp]: "xml_children (xml_set x k v) = xml_children x"
  by (cases x) simp

lemma xml_attrs_subelement [simp]: "xml_attrs (xml_subelement x c) = xml_attrs x"
  by (cases x) simp

lemma xml_attrs_set [simp]: "xml_attrs (xml_set x k v) = attr_set (xml_attrs x) k v"
  by (cases x) simp

lemma xml_tag_subelement [simp]: "xml_tag (xml_subelement x c) = xml_tag x"
  by (cases x) simp

lemma xml_tag_set [simp]: "xml_tag (xml_set x k v) = xml_tag x"
  by (cases x) simp

end
