(* ===== verification/PyStr.thy ===== *)
theory PyStr
  imports Prelude
begin

text \<open>
  The Python 2 \<open>str\<close> operations the plugin relies on, as HOL functions on
  \<open>string\<close> (a byte string, as Python 2's \<open>str\<close> is): \<open>partition\<close>,
  \<open>split\<close> with and without \<open>maxsplit\<close>, \<open>strip()\<close>, \<open>startswith\<close>
  (\<open>prefix\<close>), \<open>re.findall('\d+', s)\<close>, \<open>str\<close> of an \<open>int\<close>, indexing that
  raises \<open>IndexError\<close> (\<open>None\<close> here), and the iteration \<open>for line in f\<close> over
  a file opened in text mode. Each comes with the lemmas that characterise it: first
  occurrence for \<open>partition\<close>, the round trips of \<open>split\<close> and \<open>join\<close>, the shape
  of the digit runs.
\<close>

subsection \<open>Definitions\<close>

text \<open>\<open>s.partition(sep)\<close>: the part before the first occurrence of \<open>sep\<close>, \<open>sep\<close>,
  and the rest; \<open>(s, '', '')\<close> when \<open>sep\<close> does not occur.\<close>

fun py_partition :: "string \<Rightarrow> string \<Rightarrow> string \<times> string \<times> string" where
  "py_partition [] sep = ([], [], [])"
| "py_partition (c # cs) sep =
     (if prefix sep (c # cs) then ([], sep, drop (length sep) (c # cs))
      else (case py_partition cs sep of (h, m, t) \<Rightarrow> (c # h, m, t)))"

text \<open>\<open>s.split(d)\<close> for a one-character separator: never empty, \<open>''.split(d) = ['']\<close>.\<close>

fun py_split :: "char \<Rightarrow> string \<Rightarrow> string list" where
  "py_split d [] = [[]]"
| "py_split d (c # cs) =
     (if c = d then [] # py_split d cs
      else (let ws = py_split d cs in (c # hd ws) # tl ws))"

text \<open>\<open>s.split(d, n)\<close>: at most \<open>n\<close> splits, from the left.\<close>

fun py_split_max :: "char \<Rightarrow> nat \<Rightarrow> string \<Rightarrow> string list" where
  "py_split_max d n [] = [[]]"
| "py_split_max d n (c # cs) =
     (if c = d \<and> 0 < n then [] # py_split_max d (n - 1) cs
      else (let ws = py_split_max d n cs in (c # hd ws) # tl ws))"

text \<open>\<open>d.join(ws)\<close>.\<close>

fun py_join :: "char \<Rightarrow> string list \<Rightarrow> string" where
  "py_join d [] = []"
| "py_join d [w] = w"
| "py_join d (w # ws) = w @ d # py_join d ws"

text \<open>\<open>xs[i]\<close> for \<open>i \<ge> 0\<close>: \<open>None\<close> is the \<open>IndexError\<close>.\<close>

definition py_nth :: "'a list \<Rightarrow> nat \<Rightarrow> 'a option" where
  "py_nth xs i = (if i < length xs then Some (xs ! i) else None)"

text \<open>Python 2 \<open>str.isspace\<close> and \<open>str.isdigit\<close> on one byte, and \<open>strip()\<close>.\<close>

definition py_isspace :: "char \<Rightarrow> bool" where
  "py_isspace c \<longleftrightarrow> c = CHR '' '' \<or> c = CHR 0x09 \<or> c = CHR 0x0A \<or> c = CHR 0x0B
     \<or> c = CHR 0x0C \<or> c = CHR 0x0D"

definition py_isdigit :: "char \<Rightarrow> bool" where
  "py_isdigit c \<longleftrightarrow> (48::nat) \<le> of_char c \<and> of_char c \<le> (57::nat)"

definition py_strip :: "string \<Rightarrow> string" where
  "py_strip s = rev (dropWhile py_isspace (rev (dropWhile py_isspace s)))"

text \<open>\<open>re.findall('\d+', s)\<close>: the maximal runs of digits, left to right (Python 2
  byte-string patterns: \<open>\d\<close> is \<open>[0-9]\<close>).\<close>

function findall_digits :: "string \<Rightarrow> string list" where
  "findall_digits s =
     (let r = dropWhile (\<lambda>c. \<not> py_isdigit c) s in
      if r = [] then [] else takeWhile py_isdigit r # findall_digits (dropWhile py_isdigit r))"
  by pat_completeness auto
termination
proof (relation "measure length")
  fix s r
  assume r: "r = dropWhile (\<lambda>c. \<not> py_isdigit c) s" and ne: "r \<noteq> []"
  have "length (dropWhile py_isdigit r) < length r"
  proof -
    from r ne have "py_isdigit (hd r)"
      by (metis (mono_tags) hd_dropWhile)
    with ne show ?thesis
      by (cases r) (auto simp: length_dropWhile_le le_imp_less_Suc)
  qed
  moreover from r have "length r \<le> length s"
    by (simp add: length_dropWhile_le)
  ultimately show "(dropWhile py_isdigit r, s) \<in> measure length"
    by simp
qed simp

declare findall_digits.simps [simp del]

text \<open>\<open>str(i)\<close> for an \<open>int\<close>.\<close>

fun nat_digits :: "nat \<Rightarrow> string" where
  "nat_digits n =
     (if n < 10 then [char_of (48 + n)] else nat_digits (n div 10) @ [char_of (48 + n mod 10)])"

declare nat_digits.simps [simp del]

definition py_str_int :: "int \<Rightarrow> string" where
  "py_str_int i = (if i < 0 then CHR ''-'' # nat_digits (nat (- i)) else nat_digits (nat i))"

text \<open>\<open>for line in f\<close>: the lines of the file, each with its newline, the last one
  without it when the file does not end in a newline.\<close>

definition py_lines :: "string \<Rightarrow> string list" where
  "py_lines s =
     (let ps = py_split CHR ''\<newline>'' s in
      map (\<lambda>l. l @ ''\<newline>'') (butlast ps) @ (if last ps = [] then [] else [last ps]))"

text \<open>A Python 2 \<open>str\<close> is a byte string; \<open>s.decode('utf-8')\<close> accepts exactly the
  byte sequences that are UTF-8 as Python 2.7's decoder reads it: no overlong forms, no
  code point above \<open>U+10FFFF\<close>, encoded surrogates accepted. The model keeps the bytes
  as the decoded value; where the program goes on to use a decoded value, it is
  empty or ASCII, for which decoding changes nothing.\<close>

definition utf8_cont :: "char \<Rightarrow> bool" where
  "utf8_cont c \<longleftrightarrow> (128::nat) \<le> of_char c \<and> of_char c \<le> (191::nat)"

fun utf8_valid :: "string \<Rightarrow> bool" where
  "utf8_valid [] = True"
| "utf8_valid (b # bs) =
     (let n = (of_char b :: nat) in
      if n < 128 then utf8_valid bs
      else if 194 \<le> n \<and> n \<le> 223 then
        (case bs of c1 # r \<Rightarrow> utf8_cont c1 \<and> utf8_valid r | _ \<Rightarrow> False)
      else if 224 \<le> n \<and> n \<le> 239 then
        (case bs of
           c1 # c2 # r \<Rightarrow> utf8_cont c1 \<and> (n = 224 \<longrightarrow> (160::nat) \<le> of_char c1)
                         \<and> utf8_cont c2 \<and> utf8_valid r
         | _ \<Rightarrow> False)
      else if 240 \<le> n \<and> n \<le> 244 then
        (case bs of
           c1 # c2 # c3 # r \<Rightarrow> utf8_cont c1 \<and> (n = 240 \<longrightarrow> (144::nat) \<le> of_char c1)
                              \<and> (n = 244 \<longrightarrow> of_char c1 \<le> (143::nat))
                              \<and> utf8_cont c2 \<and> utf8_cont c3 \<and> utf8_valid r
         | _ \<Rightarrow> False)
      else False)"

text \<open>A unicode string every character of which is ASCII: what Python 2 can write to a
  file opened in text mode without a \<open>UnicodeEncodeError\<close>.\<close>

definition py_ascii :: "string \<Rightarrow> bool" where
  "py_ascii s \<longleftrightarrow> list_all (\<lambda>c. of_char c < (128::nat)) s"

text \<open>\<open>s.decode('utf-8')\<close>.\<close>

definition py_decode_utf8 :: "string \<Rightarrow> string py" where
  "py_decode_utf8 s = (if utf8_valid s then ret s else raise (UnicodeDecodeError s))"

subsection \<open>Lemmas\<close>

lemma py_partition_parts: "py_partition s sep = (h, m, t) \<Longrightarrow> h @ m @ t = s"
proof (induction s arbitrary: h m t)
  case Nil
  then show ?case by simp
next
  case (Cons c cs)
  then show ?case
    by (auto simp: prefix_def split: if_splits prod.splits)
qed

lemma py_partition_fst_eq:
  assumes "sep \<noteq> []"
  shows "fst (py_partition s sep) = s \<longleftrightarrow> \<not> sublist sep s"
proof (induction s)
  case Nil
  with assms show ?case by simp
next
  case (Cons c cs)
  then show ?case
    by (auto simp: sublist_Cons_right split: prod.splits)
qed

lemma py_partition_not_found: "\<not> sublist sep s \<Longrightarrow> py_partition s sep = (s, [], [])"
proof (induction s)
  case Nil
  then show ?case by simp
next
  case (Cons c cs)
  then show ?case by (auto simp: sublist_Cons_right)
qed

lemma prefix_append_long:
  assumes "prefix sep (xs @ ys)" and "length sep \<le> length xs"
  shows "prefix sep xs"
  using assms by (metis prefix_append prefix_length_prefix prefix_order.refl)

lemma py_partition_found:
  assumes "sep \<noteq> []" and "\<not> sublist sep (pre @ butlast sep)"
  shows "py_partition (pre @ sep @ rest) sep = (pre, sep, rest)"
  using assms(2)
proof (induction pre)
  case Nil
  from assms(1) obtain x xs where "sep = x # xs" by (cases sep) auto
  then show ?case by simp
next
  case (Cons c pre)
  have np: "\<not> prefix sep ((c # pre @ butlast sep) @ last sep # rest)"
  proof
    assume "prefix sep ((c # pre @ butlast sep) @ last sep # rest)"
    moreover have "length sep \<le> length (c # pre @ butlast sep)"
      using assms(1) by simp
    ultimately have "prefix sep (c # pre @ butlast sep)"
      by (rule prefix_append_long)
    with Cons.prems show False
      by (metis append_Cons prefix_imp_sublist)
  qed
  have eq: "(c # pre) @ sep @ rest = (c # pre @ butlast sep) @ last sep # rest"
    using assms(1) by simp
  have "\<not> sublist sep (pre @ butlast sep)"
    using Cons.prems by (metis append_Cons sublist_Cons_right)
  then have "py_partition (pre @ sep @ rest) sep = (pre, sep, rest)"
    by (rule Cons.IH)
  moreover from np eq have "\<not> prefix sep (c # pre @ sep @ rest)"
    by (metis append_Cons)
  ultimately show ?case by simp
qed

lemma py_partition_rest_subset: "set (snd (snd (py_partition s sep))) \<subseteq> set s"
proof -
  obtain h m t where e: "py_partition s sep = (h, m, t)"
    by (cases "py_partition s sep") auto
  then have "h @ m @ t = s" by (rule py_partition_parts)
  with e show ?thesis by auto
qed

lemma py_split_ne [simp]: "py_split d s \<noteq> []"
  by (induction s) (auto simp: Let_def)

lemma py_join_cons_hd:
  "ws \<noteq> [] \<Longrightarrow> py_join d ((c # hd ws) # tl ws) = c # py_join d ws"
proof (cases ws)
  case (Cons w vs)
  then show ?thesis by (cases vs) auto
qed simp

lemma py_join_Cons: "ws \<noteq> [] \<Longrightarrow> py_join d (w # ws) = w @ d # py_join d ws"
  by (cases ws) auto

lemma py_join_split: "py_join d (py_split d s) = s"
proof (induction s)
  case Nil
  then show ?case by simp
next
  case (Cons c cs)
  then show ?case
    by (auto simp: Let_def py_join_cons_hd py_join_Cons)
qed

lemma py_split_hd: "hd (py_split d s) = takeWhile (\<lambda>c. c \<noteq> d) s"
  by (induction s) (auto simp: Let_def)

lemma py_split_nodelim: "w \<in> set (py_split d s) \<Longrightarrow> d \<notin> set w"
proof (induction s arbitrary: w)
  case Nil
  then show ?case by simp
next
  case (Cons c cs)
  let ?ws = "py_split d cs"
  have "hd ?ws \<in> set ?ws" and "set (tl ?ws) \<subseteq> set ?ws"
    by (simp_all add: list.set_sel(2) subsetI)
  with Cons show ?case
    by (auto simp: Let_def split: if_splits)
qed

lemma py_split_append_nodelim:
  "d \<notin> set w \<Longrightarrow> py_split d (w @ d # rest) = w # py_split d rest"
  by (induction w) (auto simp: Let_def)

lemma py_split_nodelim_self: "d \<notin> set w \<Longrightarrow> py_split d w = [w]"
  by (induction w) (auto simp: Let_def)

lemma py_split_join:
  "ws \<noteq> [] \<Longrightarrow> (\<forall>w \<in> set ws. d \<notin> set w) \<Longrightarrow> py_split d (py_join d ws) = ws"
proof (induction ws rule: py_join.induct)
  case (2 d w)
  then show ?case by (simp add: py_split_nodelim_self)
next
  case (3 d w v vs)
  then show ?case by (simp add: py_split_append_nodelim)
qed simp

lemma py_split_max_0 [simp]: "py_split_max d 0 s = [s]"
  by (induction s) (auto simp: Let_def)

lemma py_split_max_nodelim: "d \<notin> set w \<Longrightarrow> py_split_max d n w = [w]"
  by (induction w) (auto simp: Let_def)

lemma py_split_max_append:
  "d \<notin> set w \<Longrightarrow> py_split_max d (Suc n) (w @ d # rest) = w # py_split_max d n rest"
  by (induction w) (auto simp: Let_def)

lemma py_split_max_ne [simp]: "py_split_max d n s \<noteq> []"
  by (induction s arbitrary: n) (auto simp: Let_def)

lemma py_split_max_hd: "0 < n \<Longrightarrow> hd (py_split_max d n s) = takeWhile (\<lambda>c. c \<noteq> d) s"
  by (induction s) (auto simp: Let_def)

lemma findall_digits_Nil:
  "dropWhile (\<lambda>c. \<not> py_isdigit c) s = [] \<Longrightarrow> findall_digits s = []"
  by (simp only: findall_digits.simps [of s] Let_def simp_thms if_True)

lemma findall_digits_Cons:
  assumes "dropWhile (\<lambda>c. \<not> py_isdigit c) s = r" and "r \<noteq> []"
  shows "findall_digits s = takeWhile py_isdigit r # findall_digits (dropWhile py_isdigit r)"
proof -
  have "findall_digits s = (let r = dropWhile (\<lambda>c. \<not> py_isdigit c) s in
      if r = [] then [] else takeWhile py_isdigit r # findall_digits (dropWhile py_isdigit r))"
    by (rule findall_digits.simps)
  with assms show ?thesis
    by (simp only: Let_def simp_thms if_False)
qed

lemma findall_digits_elems:
  "r \<in> set (findall_digits s) \<Longrightarrow> r \<noteq> [] \<and> (\<forall>c \<in> set r. py_isdigit c)"
proof (induction s rule: findall_digits.induct)
  case (1 s)
  let ?r = "dropWhile (\<lambda>c. \<not> py_isdigit c) s"
  show ?case
  proof (cases "?r = []")
    case True
    with "1.prems" show ?thesis by (simp add: findall_digits_Nil)
  next
    case False
    then have "py_isdigit (hd ?r)"
      by (metis (mono_tags) hd_dropWhile)
    with False have ne: "takeWhile py_isdigit ?r \<noteq> []"
      by (cases ?r) auto
    from False have eq: "findall_digits s =
        takeWhile py_isdigit ?r # findall_digits (dropWhile py_isdigit ?r)"
      by (rule findall_digits_Cons [OF refl])
    show ?thesis
    proof (cases "r = takeWhile py_isdigit ?r")
      case True
      with ne show ?thesis by (auto dest: set_takeWhileD)
    next
      case False
      with "1.prems" eq have "r \<in> set (findall_digits (dropWhile py_isdigit ?r))"
        by simp
      with \<open>?r \<noteq> []\<close> show ?thesis
        by (rule "1.IH" [OF refl])
    qed
  qed
qed

lemma set_py_join: "w \<in> set ws \<Longrightarrow> set w \<subseteq> set (py_join d ws)"
  by (induction d ws rule: py_join.induct) auto

lemma py_split_subset: "w \<in> set (py_split d s) \<Longrightarrow> set w \<subseteq> set s"
  using set_py_join [of w "py_split d s" d] by (simp add: py_join_split)

lemma findall_digits_subset: "r \<in> set (findall_digits s) \<Longrightarrow> set r \<subseteq> set s"
proof (induction s rule: findall_digits.induct)
  case (1 s)
  let ?r = "dropWhile (\<lambda>c. \<not> py_isdigit c) s"
  have rs: "set ?r \<subseteq> set s"
    by (simp add: set_dropWhileD subsetI)
  show ?case
  proof (cases "?r = []")
    case True
    with "1.prems" show ?thesis by (simp add: findall_digits_Nil)
  next
    case False
    from False have eq: "findall_digits s =
        takeWhile py_isdigit ?r # findall_digits (dropWhile py_isdigit ?r)"
      by (rule findall_digits_Cons [OF refl])
    show ?thesis
    proof (cases "r = takeWhile py_isdigit ?r")
      case True
      with rs show ?thesis by (auto dest: set_takeWhileD)
    next
      case False
      with "1.prems" eq have "r \<in> set (findall_digits (dropWhile py_isdigit ?r))"
        by simp
      with \<open>?r \<noteq> []\<close> have "set r \<subseteq> set (dropWhile py_isdigit ?r)"
        by (rule "1.IH" [OF refl])
      with rs show ?thesis by (auto dest: set_dropWhileD)
    qed
  qed
qed

lemma findall_digits_Nil_iff: "findall_digits s = [] \<longleftrightarrow> (\<forall>c \<in> set s. \<not> py_isdigit c)"
  by (subst findall_digits.simps) (auto simp: Let_def dropWhile_eq_Nil_conv)

lemma findall_digits_first:
  assumes "\<forall>c \<in> set pre. \<not> py_isdigit c" and "ds \<noteq> []" and "\<forall>c \<in> set ds. py_isdigit c"
    and "rest = [] \<or> \<not> py_isdigit (hd rest)"
  shows "py_nth (findall_digits (pre @ ds @ rest)) 0 = Some ds"
proof -
  have r: "dropWhile (\<lambda>c. \<not> py_isdigit c) (pre @ ds @ rest) = ds @ rest"
    using assms(1-3) by (cases ds) (simp_all add: dropWhile_append2)
  have t: "takeWhile py_isdigit (ds @ rest) = ds"
    using assms(3,4) by (cases rest) simp_all
  have "findall_digits (pre @ ds @ rest) =
     takeWhile py_isdigit (ds @ rest) # findall_digits (dropWhile py_isdigit (ds @ rest))"
    by (rule findall_digits_Cons [OF r]) (simp add: assms(2))
  with t show ?thesis
    by (simp add: py_nth_def)
qed

lemma py_split_nl_lines:
  "(\<forall>x \<in> set xs. d \<notin> set x) \<Longrightarrow> py_split d (concat (map (\<lambda>x. x @ [d]) xs)) = xs @ [[]]"
  by (induction xs) (simp_all add: py_split_append_nodelim)

lemma py_lines_concat:
  assumes "\<forall>x \<in> set xs. CHR ''\<newline>'' \<notin> set x"
  shows "py_lines (concat (map (\<lambda>x. x @ ''\<newline>'') xs)) = map (\<lambda>x. x @ ''\<newline>'') xs"
  using py_split_nl_lines [OF assms] by (simp add: py_lines_def)


lemma py_join_split_max: "py_join d (py_split_max d n s) = s"
proof (induction s arbitrary: n)
  case Nil
  then show ?case by simp
next
  case (Cons c cs)
  then show ?case
    by (auto simp: Let_def py_join_cons_hd py_join_Cons)
qed

lemma length_py_split_max: "length (py_split_max d n s) \<le> Suc n"
proof (induction s arbitrary: n)
  case Nil
  then show ?case by simp
next
  case (Cons c cs)
  then show ?case
    by (cases n) (auto simp: Let_def)
qed

lemma py_split_max_butlast_nodelim:
  "w \<in> set (butlast (py_split_max d n s)) \<Longrightarrow> d \<notin> set w"
proof (induction s arbitrary: n w)
  case Nil
  then show ?case by simp
next
  case (Cons c cs)
  let ?ws = "py_split_max d n cs"
  have ne: "?ws \<noteq> []" by simp
  show ?case
  proof (cases "c = d \<and> 0 < n")
    case True
    then have "py_split_max d n (c # cs) = [] # py_split_max d (n - 1) cs"
      by simp
    then have "butlast (py_split_max d n (c # cs)) = [] # butlast (py_split_max d (n - 1) cs)"
      by simp
    with Cons.prems Cons.IH [where n = "n - 1"] show ?thesis
      by auto
  next
    case False
    then have eq: "py_split_max d n (c # cs) = (c # hd ?ws) # tl ?ws"
      by (auto simp: Let_def)
    show ?thesis
    proof (cases "tl ?ws = []")
      case True
      with Cons.prems eq show ?thesis by simp
    next
      case False
      have "butlast ((c # hd ?ws) # tl ?ws) = (c # hd ?ws) # butlast (tl ?ws)"
        using False by simp
      moreover have "hd ?ws \<in> set (butlast ?ws)" and "set (butlast (tl ?ws)) \<subseteq> set (butlast ?ws)"
        using ne False by (cases ?ws; auto simp: in_set_butlastD butlast_tl)+
      ultimately show ?thesis
        using Cons.prems Cons.IH eq \<open>\<not> (c = d \<and> 0 < n)\<close> by (auto simp del: py_split_max.simps)
    qed
  qed
qed

lemma py_split_max_2_decomp:
  assumes "py_split_max d 2 s = [a, b, r]"
  shows "s = a @ d # b @ d # r \<and> d \<notin> set a \<and> d \<notin> set b"
proof -
  have "s = py_join d [a, b, r]"
    using py_join_split_max [of d 2 s] assms by simp
  moreover have "d \<notin> set a" "d \<notin> set b"
    using py_split_max_butlast_nodelim [of a d 2 s] py_split_max_butlast_nodelim [of b d 2 s] assms
    by simp_all
  ultimately show ?thesis by simp
qed

lemma py_split_max_2_build:
  "d \<notin> set a \<Longrightarrow> d \<notin> set b \<Longrightarrow> py_split_max d 2 (a @ d # b @ d # r) = [a, b, r]"
  by (simp add: numeral_2_eq_2 py_split_max_append del: append.simps)

lemma py_str_int_one [simp]: "py_str_int 1 = ''1''"
  by code_simp


lemma py_ascii_append [simp]: "py_ascii (xs @ ys) \<longleftrightarrow> py_ascii xs \<and> py_ascii ys"
  by (simp add: py_ascii_def)

lemma py_ascii_Nil [simp]: "py_ascii []"
  by (simp add: py_ascii_def)

lemma py_ascii_Cons [simp]: "py_ascii (c # s) \<longleftrightarrow> of_char c < (128::nat) \<and> py_ascii s"
  by (simp add: py_ascii_def)

lemma utf8_valid_ascii: "py_ascii s \<Longrightarrow> utf8_valid s"
  by (induction s) (simp_all add: py_ascii_def)

lemma py_ascii_nat_digits: "py_ascii (nat_digits n)"
proof (induction n rule: nat_digits.induct)
  case (1 n)
  have d: "py_ascii [char_of (48 + k)]" if "k < 10" for k :: nat
    using that by (simp add: py_ascii_def of_char_of nat_mod_eq_iff)
  show ?case
  proof (cases "n < 10")
    case True
    with d show ?thesis by (simp add: nat_digits.simps)
  next
    case False
    with 1 d [of "n mod 10"] show ?thesis by (simp add: nat_digits.simps)
  qed
qed

lemma py_ascii_str_int [simp]: "py_ascii (py_str_int i)"
  using py_ascii_nat_digits [of "nat (- i)"] py_ascii_nat_digits [of "nat i"]
  by (simp add: py_str_int_def py_ascii_def)

lemma py_decode_utf8_valid [simp]: "utf8_valid s \<Longrightarrow> py_decode_utf8 s = ret s"
  by (simp add: py_decode_utf8_def)

lemma py_decode_utf8_invalid [simp]: "\<not> utf8_valid s \<Longrightarrow> py_decode_utf8 s = raise (UnicodeDecodeError s)"
  by (simp add: py_decode_utf8_def)

lemma utf8_valid_Nil_ne: "\<not> utf8_valid s \<Longrightarrow> s \<noteq> []"
  by auto

end
