(* ===== verification/Patches.thy ===== *)
theory Patches
  imports PyStr
begin

text \<open>
  \<open>ISA_CVEChecker.process_patch_list\<close> (\<open>ISA_cve_plugin.py\<close>, lines 239--255): the
  CVE identifiers a package's patch files fix, read off their file names, as the
  string \<open>" CVE-<year>-<number>"\<close> per recognised patch that goes into the third
  field of the package's faux line. The loop body is split in two the way the code
  is: \<open>patch_info_of\<close> looks for \<open>"cve"\<close>, then \<open>"CVE"\<close>, in the name
  (\<open>partition\<close>); \<open>patch_cve_id\<close> is the \<open>try\<close> block that splits the rest
  at \<open>'-'\<close> and builds the identifier, \<open>None\<close> standing for the
  \<open>IndexError\<close> that makes the loop \<open>continue\<close>.
\<close>

subsection \<open>Definitions\<close>

definition patch_cve_id :: "string \<Rightarrow> string option" where
  "patch_cve_id tail =
     (let patchstripped = py_split CHR ''-'' tail in
      case py_nth patchstripped 1 of
        None \<Rightarrow> None
      | Some year \<Rightarrow>
          (case py_nth patchstripped 2 of
             None \<Rightarrow> None
           | Some field \<Rightarrow>
               (case py_nth (findall_digits field) 0 of
                  None \<Rightarrow> None
                | Some num \<Rightarrow> Some ('' CVE-'' @ year @ ''-'' @ num))))"

definition patch_info_of :: "string \<Rightarrow> string option" where
  "patch_info_of patch =
     (let patch1 = py_partition patch ''cve'' in
      if fst patch1 = patch then
        (let patch1 = py_partition patch ''CVE'' in
         if fst patch1 = patch then None else patch_cve_id (snd (snd patch1)))
      else patch_cve_id (snd (snd patch1)))"

fun process_patch_list_loop :: "string \<Rightarrow> string list \<Rightarrow> string" where
  "process_patch_list_loop patch_info [] = patch_info"
| "process_patch_list_loop patch_info (patch # patches) =
     process_patch_list_loop
       (case patch_info_of patch of None \<Rightarrow> patch_info | Some s \<Rightarrow> patch_info @ s) patches"

definition process_patch_list :: "string list \<Rightarrow> string" where
  "process_patch_list patch_files = process_patch_list_loop [] patch_files"

text \<open>The block one recognised patch contributes, as a function of its two fields.\<close>

definition cve_block :: "string \<times> string \<Rightarrow> string" where
  "cve_block yd = '' CVE-'' @ fst yd @ ''-'' @ snd yd"

definition wf_block :: "string \<times> string \<Rightarrow> bool" where
  "wf_block yd \<longleftrightarrow> CHR ''-'' \<notin> set (fst yd) \<and> snd yd \<noteq> [] \<and> list_all py_isdigit (snd yd)"

subsection \<open>The loop against a reference\<close>

text \<open>The accumulating loop is the concatenation of what each patch contributes.\<close>

definition patch_contrib :: "string \<Rightarrow> string" where
  "patch_contrib p = (case patch_info_of p of None \<Rightarrow> [] | Some s \<Rightarrow> s)"

lemma process_patch_list_loop_concat:
  "process_patch_list_loop acc ps = acc @ concat (map patch_contrib ps)"
  by (induction ps arbitrary: acc) (auto simp: patch_contrib_def split: option.splits)

lemma process_patch_list_concat:
  "process_patch_list ps = concat (map patch_contrib ps)"
  by (simp add: process_patch_list_def process_patch_list_loop_concat)

subsection \<open>What one patch contributes\<close>

lemma patch_cve_id_Some:
  assumes "patch_cve_id tail = Some s"
  shows "\<exists>yd. s = cve_block yd \<and> wf_block yd \<and> set (fst yd) \<subseteq> set tail
           \<and> set (snd yd) \<subseteq> set tail"
proof -
  let ?ps = "py_split CHR ''-'' tail"
  from assms obtain year field num where
    y: "py_nth ?ps 1 = Some year" and f: "py_nth ?ps 2 = Some field"
    and n: "py_nth (findall_digits field) 0 = Some num"
    and s: "s = '' CVE-'' @ year @ ''-'' @ num"
    by (auto simp: patch_cve_id_def Let_def split: option.splits)
  from y have yin: "year \<in> set ?ps" by (auto simp: py_nth_def split: if_splits)
  from f have fin: "field \<in> set ?ps" by (auto simp: py_nth_def split: if_splits)
  from n have nin: "num \<in> set (findall_digits field)" by (auto simp: py_nth_def split: if_splits)
  have "set year \<subseteq> set tail" and "set field \<subseteq> set tail"
    using yin fin by (auto dest: py_split_subset)
  moreover have "CHR ''-'' \<notin> set year"
    using yin by (rule py_split_nodelim)
  moreover have "num \<noteq> [] \<and> (\<forall>c \<in> set num. py_isdigit c)"
    using nin by (rule findall_digits_elems)
  moreover have "set num \<subseteq> set field"
    using nin by (rule findall_digits_subset)
  ultimately show ?thesis
    using s by (intro exI [of _ "(year, num)"]) (auto simp: cve_block_def wf_block_def list_all_iff)
qed

lemma patch_info_of_tail:
  assumes "patch_info_of p = Some s"
  obtains tail where "patch_cve_id tail = Some s" and "set tail \<subseteq> set p"
proof (cases "fst (py_partition p ''cve'') = p")
  case True
  show ?thesis
  proof (cases "fst (py_partition p ''CVE'') = p")
    case True
    with \<open>fst (py_partition p ''cve'') = p\<close> assms show ?thesis
      by (simp add: patch_info_of_def Let_def)
  next
    case False
    with \<open>fst (py_partition p ''cve'') = p\<close> assms have "patch_cve_id (snd (snd (py_partition p ''CVE''))) = Some s"
      by (simp add: patch_info_of_def Let_def)
    then show ?thesis using that py_partition_rest_subset by blast
  qed
next
  case False
  with assms have "patch_cve_id (snd (snd (py_partition p ''cve''))) = Some s"
    by (simp add: patch_info_of_def Let_def)
  then show ?thesis using that py_partition_rest_subset by blast
qed

lemma patch_info_of_Some:
  assumes "patch_info_of p = Some s"
  shows "\<exists>yd. s = cve_block yd \<and> wf_block yd \<and> set (fst yd) \<subseteq> set p \<and> set (snd yd) \<subseteq> set p"
proof -
  obtain tail where t: "patch_cve_id tail = Some s" and sub: "set tail \<subseteq> set p"
    using assms by (rule patch_info_of_tail)
  from patch_cve_id_Some [OF t] sub show ?thesis by blast
qed

lemma patch_contrib_format:
  "\<exists>bs. patch_contrib p = concat (map cve_block bs) \<and> length bs \<le> 1 \<and> list_all wf_block bs
     \<and> (\<forall>yd \<in> set bs. set (fst yd) \<subseteq> set p \<and> set (snd yd) \<subseteq> set p)"
proof (cases "patch_info_of p")
  case None
  then show ?thesis by (intro exI [of _ "[]"]) (simp add: patch_contrib_def)
next
  case (Some s)
  with patch_info_of_Some obtain yd where "s = cve_block yd" "wf_block yd"
      "set (fst yd) \<subseteq> set p" "set (snd yd) \<subseteq> set p"
    by blast
  with Some show ?thesis by (intro exI [of _ "[yd]"]) (simp add: patch_contrib_def)
qed

lemma patch_contrib_chars: "set (patch_contrib p) \<subseteq> set '' CVE-'' \<union> set p"
proof -
  obtain bs where "patch_contrib p = concat (map cve_block bs)"
      "\<forall>yd \<in> set bs. set (fst yd) \<subseteq> set p \<and> set (snd yd) \<subseteq> set p"
    using patch_contrib_format [of p] by blast
  then show ?thesis by (auto simp: cve_block_def)
qed

text \<open>C15: Whatever the patch names, the string \<open>process_patch_list\<close> builds is a concatenation of blocks \<open>" CVE-<year>-<number>"\<close>, at most one per patch, where the year field has no dash and the number is a non-empty run of decimal digits.\<close>

theorem process_patch_list_format:
  "\<exists>bs. process_patch_list ps = concat (map cve_block bs) \<and> length bs \<le> length ps
     \<and> list_all wf_block bs"
proof (induction ps)
  case Nil
  then show ?case by (simp add: process_patch_list_concat)
next
  case (Cons p ps)
  then obtain bs where bs: "process_patch_list ps = concat (map cve_block bs)"
      "length bs \<le> length ps" "list_all wf_block bs"
    by blast
  obtain cs where cs: "patch_contrib p = concat (map cve_block cs)" "length cs \<le> 1"
      "list_all wf_block cs"
    using patch_contrib_format by blast
  from bs cs show ?case
    by (intro exI [of _ "cs @ bs"]) (simp add: process_patch_list_concat)
qed

text \<open>C25: \<open>process_patch_list\<close> introduces no character of its own besides those of \<open>" CVE-"\<close>: every character of its result is one of these or occurs in a patch name. In particular it adds no comma and no newline to the faux line.\<close>

theorem process_patch_list_chars:
  "set (process_patch_list ps) \<subseteq> set '' CVE-'' \<union> (\<Union>p \<in> set ps. set p)"
  using patch_contrib_chars by (fastforce simp: process_patch_list_concat)

text \<open>C21: A patch whose name contains neither \<open>cve\<close> nor \<open>CVE\<close> contributes nothing: removing it from the list does not change the result.\<close>

theorem process_patch_list_skips:
  assumes "\<not> sublist ''cve'' p" and "\<not> sublist ''CVE'' p"
  shows "process_patch_list (xs @ p # ys) = process_patch_list (xs @ ys)"
proof -
  have "patch_info_of p = None"
    using assms by (simp add: patch_info_of_def py_partition_not_found)
  then show ?thesis
    by (simp add: process_patch_list_concat patch_contrib_def)
qed

theorem process_patch_list_skips_witness:
  "\<not> sublist ''cve'' ''0001-fix-build.patch'' \<and> \<not> sublist ''CVE'' ''0001-fix-build.patch''
   \<and> process_patch_list ([''CVE-2015-0001.patch''] @ ''0001-fix-build.patch'' # [])
     = process_patch_list ([''CVE-2015-0001.patch''] @ [])"
proof -
  have a: "\<not> sublist ''cve'' ''0001-fix-build.patch''" and b: "\<not> sublist ''CVE'' ''0001-fix-build.patch''"
    by code_simp+
  show ?thesis
    using process_patch_list_skips [OF a b, of "[''CVE-2015-0001.patch'']" "[]"] a b by simp
qed

lemma patch_cve_id_canonical:
  assumes "CHR ''-'' \<notin> set year" and "num \<noteq> []" and "list_all py_isdigit num"
    and "rest = [] \<or> \<not> py_isdigit (hd rest)"
  shows "patch_cve_id (''-'' @ year @ ''-'' @ num @ rest) = Some ('' CVE-'' @ year @ ''-'' @ num)"
proof -
  let ?rest = "takeWhile (\<lambda>c. c \<noteq> CHR ''-'') rest"
  have dash: "\<not> py_isdigit (CHR ''-'')" by (simp add: py_isdigit_def)
  have nd: "CHR ''-'' \<notin> set num"
    using assms(3) dash by (auto simp: list_all_iff)
  have split: "py_split CHR ''-'' (''-'' @ year @ ''-'' @ num @ rest)
      = [] # year # py_split CHR ''-'' (num @ rest)"
    using assms(1) py_split_append_nodelim [of "CHR ''-''" "[]"]
      py_split_append_nodelim [of "CHR ''-''" year] by simp
  have "takeWhile (\<lambda>c. c \<noteq> CHR ''-'') (num @ rest) = num @ ?rest"
    by (rule takeWhile_append2) (use nd in auto)
  then have field: "hd (py_split CHR ''-'' (num @ rest)) = num @ ?rest"
    by (simp add: py_split_hd)
  have r: "?rest = [] \<or> \<not> py_isdigit (hd ?rest)"
    using assms(4) by (cases rest) auto
  have "py_nth (findall_digits ([] @ num @ ?rest)) 0 = Some num"
    using assms(2,3) r by (intro findall_digits_first) (auto simp: list_all_iff)
  then show ?thesis
    using split field py_split_ne [of "CHR ''-''" "num @ rest"]
    by (cases "py_split CHR ''-'' (num @ rest)") (simp_all add: patch_cve_id_def py_nth_def)
qed

lemma patch_info_of_canonical:
  assumes tag: "(tag = ''cve'' \<and> \<not> sublist ''cve'' (pre @ ''cv''))
      \<or> (tag = ''CVE'' \<and> \<not> sublist ''cve'' (pre @ tag @ ''-'' @ year @ ''-'' @ num @ rest)
          \<and> \<not> sublist ''CVE'' (pre @ ''CV''))"
    and "CHR ''-'' \<notin> set year" and "num \<noteq> []" and "list_all py_isdigit num"
    and "rest = [] \<or> \<not> py_isdigit (hd rest)"
  shows "patch_info_of (pre @ tag @ ''-'' @ year @ ''-'' @ num @ rest)
     = Some ('' CVE-'' @ year @ ''-'' @ num)"
proof -
  let ?tail = "''-'' @ year @ ''-'' @ num @ rest"
  have id: "patch_cve_id ?tail = Some ('' CVE-'' @ year @ ''-'' @ num)"
    using assms(2-5) by (rule patch_cve_id_canonical)
  from tag show ?thesis
  proof
    assume a: "tag = ''cve'' \<and> \<not> sublist ''cve'' (pre @ ''cv'')"
    then have "\<not> sublist ''cve'' (pre @ butlast ''cve'')" by simp
    then have "py_partition (pre @ ''cve'' @ ?tail) ''cve'' = (pre, ''cve'', ?tail)"
      by (intro py_partition_found) simp_all
    with a id show ?thesis
      by (simp add: patch_info_of_def Let_def)
  next
    assume a: "tag = ''CVE'' \<and> \<not> sublist ''cve'' (pre @ tag @ ?tail)
        \<and> \<not> sublist ''CVE'' (pre @ ''CV'')"
    then have t: "tag = ''CVE''" and n: "\<not> sublist ''cve'' (pre @ tag @ ?tail)"
      by blast+
    from n have "\<not> sublist ''cve'' (pre @ ''CVE'' @ ?tail)" by (simp only: t not_False_eq_True)
    then have "py_partition (pre @ ''CVE'' @ ?tail) ''cve'' = (pre @ ''CVE'' @ ?tail, [], [])"
      by (rule py_partition_not_found)
    moreover from a have "\<not> sublist ''CVE'' (pre @ butlast ''CVE'')" by (simp del: append.simps)
    then have "py_partition (pre @ ''CVE'' @ ?tail) ''CVE'' = (pre, ''CVE'', ?tail)"
      by (intro py_partition_found) simp_all
    ultimately show ?thesis
      using a id by (simp add: patch_info_of_def Let_def)
  qed
qed

text \<open>C1: Round trip: a patch named \<open><pre>CVE-<year>-<number><rest>\<close> (or with \<open>cve\<close>), where the tag is the first occurrence the code searches for, the year has no dash, the number is a run of digits and the rest does not continue it, yields exactly \<open>" CVE-<year>-<number>"\<close>.\<close>

theorem process_patch_list_canonical:
  assumes "(tag = ''cve'' \<and> \<not> sublist ''cve'' (pre @ ''cv''))
      \<or> (tag = ''CVE'' \<and> \<not> sublist ''cve'' (pre @ tag @ ''-'' @ year @ ''-'' @ num @ rest)
          \<and> \<not> sublist ''CVE'' (pre @ ''CV''))"
    and "CHR ''-'' \<notin> set year" and "num \<noteq> []" and "list_all py_isdigit num"
    and "rest = [] \<or> \<not> py_isdigit (hd rest)"
  shows "process_patch_list [pre @ tag @ ''-'' @ year @ ''-'' @ num @ rest]
     = '' CVE-'' @ year @ ''-'' @ num"
  using patch_info_of_canonical [OF assms]
  by (simp add: process_patch_list_concat patch_contrib_def)

theorem process_patch_list_canonical_witness:
  "(''CVE'' = ''cve'' \<and> \<not> sublist ''cve'' (''openssl-'' @ ''cv''))
      \<or> (''CVE'' = ''CVE'' \<and> \<not> sublist ''cve'' (''openssl-'' @ ''CVE'' @ ''-'' @ ''2016'' @ ''-'' @ ''2105'' @ ''.patch'')
          \<and> \<not> sublist ''CVE'' (''openssl-'' @ ''CV''))
   \<and> CHR ''-'' \<notin> set ''2016'' \<and> ''2105'' \<noteq> [] \<and> list_all py_isdigit ''2105''
   \<and> (''.patch'' = [] \<or> \<not> py_isdigit (hd ''.patch''))
   \<and> process_patch_list [''openssl-'' @ ''CVE'' @ ''-'' @ ''2016'' @ ''-'' @ ''2105'' @ ''.patch'']
     = '' CVE-'' @ ''2016'' @ ''-'' @ ''2105''"
proof -
  have h: "(''CVE'' = ''cve'' \<and> \<not> sublist ''cve'' (''openssl-'' @ ''cv''))
      \<or> (''CVE'' = ''CVE'' \<and> \<not> sublist ''cve'' (''openssl-'' @ ''CVE'' @ ''-'' @ ''2016'' @ ''-'' @ ''2105'' @ ''.patch'')
          \<and> \<not> sublist ''CVE'' (''openssl-'' @ ''CV''))"
    by code_simp
  have d: "list_all py_isdigit ''2105''" and e: "\<not> py_isdigit (hd ''.patch'')"
    by (simp_all add: py_isdigit_def)
  show ?thesis
    using h d e process_patch_list_canonical [OF h _ _ d] by simp
qed

end
