(* ===== verification/Checker.thy ===== *)
theory Checker
  imports Patches
begin

text \<open>
  The plugin object \<open>ISA_CVEChecker\<close> (\<open>ISA_cve_plugin.py\<close>): its fields as the
  record \<open>checker\<close>, the host's configuration and package objects as the records
  \<open>isa_config\<close> and \<open>isa_pkg\<close>, the constructor \<open>__init__\<close> (lines 39--67) and
  \<open>process_package\<close> (lines 69--97), which appends one faux line per package and per
  alias to the batch file \<open><reportdir>/cve_check_tool_pkglist_<timestamp>.faux\<close>.
  Python's truthiness of a string or a list is non-emptiness; a field the host leaves
  \<open>None\<close> is modelled as the empty string or list, which the code treats alike.
  The lemmas give the behaviour of \<open>process_package\<close> on each of its three branches,
  the effect of a sequence of packages, and the well-formedness of the batch file.
\<close>

subsection \<open>Data\<close>

record isa_config =
  cfg_proxy :: string
  cfg_cacert :: string
  cfg_reportdir :: string
  cfg_timestamp :: string
  cfg_logdir :: string
  cfg_tmp_dir :: string

record isa_pkg =
  name :: string
  version :: string
  patch_files :: "string list"
  aliases :: "string list"

record checker =
  initialized :: bool
  proxy :: string
  cacert :: string
  reportdir :: string
  timestamp :: string
  logfile :: string
  csv_report_name :: string
  html_report_name :: string
  tmp_dir :: string

definition pkglist :: string where
  "pkglist = ''/cve_check_tool_pkglist''"

text \<open>\<open>self.reportdir + pkglist + "_" + self.timestamp + ".faux"\<close>, the path the
  code spells out in \<open>process_package\<close>, \<open>process_report\<close> and
  \<open>process_report_type\<close>.\<close>

definition faux_path :: "checker \<Rightarrow> string" where
  "faux_path c = reportdir c @ pkglist @ ''_'' @ timestamp c @ ''.faux''"

text \<open>\<open>with open(self.logfile, 'a') as flog: flog.write(s)\<close>.\<close>

definition log :: "checker \<Rightarrow> string \<Rightarrow> unit py" where
  "log c s = append_file (logfile c) s"

subsection \<open>The constructor\<close>

definition checker_of_config :: "isa_config \<Rightarrow> checker" where
  "checker_of_config cfg =
     \<lparr>initialized = False, proxy = cfg_proxy cfg, cacert = cfg_cacert cfg,
      reportdir = cfg_reportdir cfg, timestamp = cfg_timestamp cfg,
      logfile = cfg_logdir cfg @ ''/isafw_cvelog'',
      csv_report_name = cfg_reportdir cfg @ ''/cve_report'',
      html_report_name = cfg_reportdir cfg @ ''/cve_check'',
      tmp_dir = cfg_tmp_dir cfg\<rparr>"

definition ISA_CVEChecker_init :: "shell \<Rightarrow> isa_config \<Rightarrow> checker py" where
  "ISA_CVEChecker_init sh cfg =
     (let c = checker_of_config cfg in
      try_else (popen sh ''which cve-check-tool'')
        (\<lambda>_. seqp (log c ''error executing which cve-check-tool\<newline>'') (ret c))
        (\<lambda>(output, _, _).
           if output \<noteq> [] then
             seqp (log c ''\<newline>Plugin ISA_CVEChecker initialized!\<newline>'')
               (ret (c\<lparr>initialized := True\<rparr>))
           else
             seqp (log c (''cve-check-tool is missing!\<newline>''
                  @ ''Please install it from https://github.com/ikeydoherty/cve-check-tool.\<newline>''))
               (ret c)))"

subsection \<open>Recording a package\<close>

text \<open>One line of the faux format: \<open>name + "," + version + "," + info + ",\n"\<close>.\<close>

definition faux_line :: "string \<Rightarrow> string \<Rightarrow> string \<Rightarrow> string" where
  "faux_line n v info = n @ '','' @ v @ '','' @ info @ '',\<newline>''"

definition pkg_args_ok :: "isa_pkg \<Rightarrow> bool" where
  "pkg_args_ok pkg \<longleftrightarrow> name pkg \<noteq> [] \<and> version pkg \<noteq> [] \<and> patch_files pkg \<noteq> []"

text \<open>The text one accepted package appends: its own line, then one per alias.\<close>

definition pkg_faux_text :: "isa_pkg \<Rightarrow> string" where
  "pkg_faux_text pkg =
     (let cve_patch_info = process_patch_list (patch_files pkg) in
      faux_line (name pkg) (version pkg) cve_patch_info
      @ concat (map (\<lambda>a. faux_line a (version pkg) cve_patch_info) (aliases pkg)))"

definition process_package :: "checker \<Rightarrow> isa_pkg \<Rightarrow> checker py" where
  "process_package c pkg =
     (if initialized c then
        (if pkg_args_ok pkg then
           (let cve_patch_info = process_patch_list (patch_files pkg);
                pkgline_faux = faux_line (name pkg) (version pkg) cve_patch_info;
                alias_pkgs_faux = map (\<lambda>a. faux_line a (version pkg) cve_patch_info) (aliases pkg)
            in seqp (append_file (faux_path c) (pkgline_faux @ concat alias_pkgs_faux))
                 (seqp (log c (''\<newline>pkg info: '' @ pkgline_faux)) (ret c)))
         else
           seqp (log c (''Mandatory arguments such as pkg name, version and list of patches are not provided!\<newline>''
                  @ ''Not performing the call.\<newline>''))
             (ret (c\<lparr>initialized := False\<rparr>)))
      else seqp (log c ''Plugin hasn't initialized! Not performing the call.\<newline>'') (ret c))"

text \<open>The host calls \<open>process_package\<close> once per built package, in build order; an
  exception would end the build, so the run stops at the first one.\<close>

fun process_packages :: "checker \<Rightarrow> isa_pkg list \<Rightarrow> checker py" where
  "process_packages c [] = ret c"
| "process_packages c (pkg # pkgs) = bindp (process_package c pkg) (\<lambda>c'. process_packages c' pkgs)"

subsection \<open>The faux format as the tool reads it\<close>

text \<open>
  What \<open>cve-check-tool -t faux\<close> expects of the batch file, as the spec describes it:
  one line per package, \<open>name,version,patch info,\<close>. A field is safe when it has no
  comma and no newline. \<open>parse_faux\<close> reads the file back into records; it
  specifies the contract and models no code of the plugin.
\<close>

definition faux_field_ok :: "string \<Rightarrow> bool" where
  "faux_field_ok s \<longleftrightarrow> CHR '','' \<notin> set s \<and> CHR ''\<newline>'' \<notin> set s"

definition pkg_fields_ok :: "isa_pkg \<Rightarrow> bool" where
  "pkg_fields_ok pkg \<longleftrightarrow> faux_field_ok (name pkg) \<and> faux_field_ok (version pkg)
     \<and> list_all faux_field_ok (patch_files pkg) \<and> list_all faux_field_ok (aliases pkg)"

definition parse_faux_line :: "string \<Rightarrow> (string \<times> string \<times> string) option" where
  "parse_faux_line l =
     (case py_split CHR '','' l of
        [n, v, info, e] \<Rightarrow> if e = ''\<newline>'' then Some (n, v, info) else None
      | _ \<Rightarrow> None)"

definition parse_faux :: "string \<Rightarrow> (string \<times> string \<times> string) list option" where
  "parse_faux s = those (map parse_faux_line (py_lines s))"

text \<open>The lines one accepted package appends, in the order it writes them.\<close>

definition pkg_lines :: "isa_pkg \<Rightarrow> string list" where
  "pkg_lines pkg =
     (let info = process_patch_list (patch_files pkg) in
      faux_line (name pkg) (version pkg) info # map (\<lambda>a. faux_line a (version pkg) info) (aliases pkg))"

definition pkg_records :: "isa_pkg \<Rightarrow> (string \<times> string \<times> string) list" where
  "pkg_records pkg =
     (let info = process_patch_list (patch_files pkg) in
      (name pkg, version pkg, info) # map (\<lambda>a. (a, version pkg, info)) (aliases pkg))"

subsection \<open>Concrete objects for the witnesses\<close>

definition demo_config :: isa_config where
  "demo_config = \<lparr>cfg_proxy = [], cfg_cacert = [], cfg_reportdir = ''/r'', cfg_timestamp = ''1'',
     cfg_logdir = ''/l'', cfg_tmp_dir = ''/t''\<rparr>"

definition demo_checker :: checker where
  "demo_checker = (checker_of_config demo_config)\<lparr>initialized := True\<rparr>"

definition demo_pkg :: isa_pkg where
  "demo_pkg = \<lparr>name = ''openssl'', version = ''1.0.2'',
     patch_files = [''CVE-2016-2105.patch'', ''0001-build.patch''], aliases = [''libssl'']\<rparr>"

definition demo_world :: world where
  "demo_world = \<lparr>files = Map.empty, trace = [], xml_out = Map.empty\<rparr>"

subsection \<open>Lemmas\<close>

lemma faux_path_upd [simp]: "faux_path (c\<lparr>initialized := b\<rparr>) = faux_path c"
  by (simp add: faux_path_def)

lemma log_eq [simp]: "seqp (log c s) m w = m (appended w (logfile c) s)"
  by (simp add: log_def)

lemma process_package_accept:
  "initialized c \<Longrightarrow> pkg_args_ok pkg \<Longrightarrow> process_package c pkg w
     = (Inr c, appended (appended w (faux_path c) (pkg_faux_text pkg)) (logfile c)
          (''\<newline>pkg info: '' @ faux_line (name pkg) (version pkg) (process_patch_list (patch_files pkg))))"
  by (simp add: process_package_def pkg_faux_text_def Let_def ret_def)

lemma process_package_reject:
  "initialized c \<Longrightarrow> \<not> pkg_args_ok pkg \<Longrightarrow> process_package c pkg w
     = (Inr (c\<lparr>initialized := False\<rparr>), appended w (logfile c)
          (''Mandatory arguments such as pkg name, version and list of patches are not provided!\<newline>''
           @ ''Not performing the call.\<newline>''))"
  by (simp add: process_package_def ret_def)

lemma process_package_uninit:
  "\<not> initialized c \<Longrightarrow> process_package c pkg w
     = (Inr c, appended w (logfile c) ''Plugin hasn't initialized! Not performing the call.\<newline>'')"
  by (simp add: process_package_def ret_def)

lemma process_package_summary:
  assumes "logfile c \<noteq> faux_path c"
  shows "\<exists>c1 w1. process_package c pkg w = (Inr c1, w1)
     \<and> faux_path c1 = faux_path c \<and> logfile c1 = logfile c
     \<and> (initialized c1 \<longleftrightarrow> initialized c \<and> pkg_args_ok pkg)
     \<and> file_text w1 (faux_path c) = file_text w (faux_path c)
          @ (if initialized c \<and> pkg_args_ok pkg then pkg_faux_text pkg else [])
     \<and> trace w1 = trace w \<and> xml_out w1 = xml_out w"
  using assms
  by (cases "initialized c"; cases "pkg_args_ok pkg")
     (simp_all add: process_package_accept process_package_reject process_package_uninit)

lemma process_packages_run:
  assumes "logfile c \<noteq> faux_path c"
  shows "\<exists>c' w'. process_packages c pkgs w = (Inr c', w')
     \<and> faux_path c' = faux_path c \<and> logfile c' = logfile c
     \<and> (initialized c' \<longleftrightarrow> initialized c \<and> list_all pkg_args_ok pkgs)
     \<and> file_text w' (faux_path c) = file_text w (faux_path c)
          @ (if initialized c then concat (map pkg_faux_text (takeWhile pkg_args_ok pkgs)) else [])
     \<and> trace w' = trace w \<and> xml_out w' = xml_out w"
  using assms
proof (induction pkgs arbitrary: c w)
  case Nil
  then show ?case by (simp add: ret_def)
next
  case (Cons pkg pkgs)
  obtain c1 w1 where s1: "process_package c pkg w = (Inr c1, w1)"
    and f1: "faux_path c1 = faux_path c" "logfile c1 = logfile c"
    and i1: "initialized c1 \<longleftrightarrow> initialized c \<and> pkg_args_ok pkg"
    and t1: "file_text w1 (faux_path c) = file_text w (faux_path c)
          @ (if initialized c \<and> pkg_args_ok pkg then pkg_faux_text pkg else [])"
    and o1: "trace w1 = trace w" "xml_out w1 = xml_out w"
    using process_package_summary [OF Cons.prems] by blast
  from Cons.prems f1 have "logfile c1 \<noteq> faux_path c1" by simp
  then obtain c' w' where s2: "process_packages c1 pkgs w1 = (Inr c', w')"
    and f2: "faux_path c' = faux_path c1" "logfile c' = logfile c1"
    and i2: "initialized c' \<longleftrightarrow> initialized c1 \<and> list_all pkg_args_ok pkgs"
    and t2: "file_text w' (faux_path c1) = file_text w1 (faux_path c1)
          @ (if initialized c1 then concat (map pkg_faux_text (takeWhile pkg_args_ok pkgs)) else [])"
    and o2: "trace w' = trace w1" "xml_out w' = xml_out w1"
    using Cons.IH by blast
  show ?case
    using s1 s2 f1 f2 i1 i2 t1 t2 o1 o2
    by (intro exI [of _ c'] exI [of _ w']) (auto simp: bindp_def)
qed

lemma faux_line_body: "faux_line n v info = (n @ '','' @ v @ '','' @ info @ '','') @ ''\<newline>''"
  by (simp add: faux_line_def)

lemma parse_faux_line_ok:
  assumes "faux_field_ok n" "faux_field_ok v" "faux_field_ok info"
  shows "parse_faux_line (faux_line n v info) = Some (n, v, info)"
  using assms by (simp add: faux_field_ok_def faux_line_def parse_faux_line_def
      py_split_append_nodelim py_split_nodelim_self)

lemma faux_field_ok_info:
  "list_all faux_field_ok ps \<Longrightarrow> faux_field_ok (process_patch_list ps)"
proof -
  assume a: "list_all faux_field_ok ps"
  have "set (process_patch_list ps) \<subseteq> set '' CVE-'' \<union> (\<Union>p \<in> set ps. set p)"
    using patch_contrib_chars by (fastforce simp: process_patch_list_concat)
  with a show ?thesis
    by (auto simp: faux_field_ok_def list_all_iff)
qed

lemma pkg_faux_text_lines: "pkg_faux_text pkg = concat (pkg_lines pkg)"
  by (simp add: pkg_faux_text_def pkg_lines_def Let_def)

lemma parse_faux_concat:
  assumes "\<forall>l \<in> set ls. \<exists>x. l = x @ ''\<newline>'' \<and> CHR ''\<newline>'' \<notin> set x"
  shows "parse_faux (concat ls) = those (map parse_faux_line ls)"
proof -
  let ?xs = "map butlast ls"
  have ls: "ls = map (\<lambda>x. x @ ''\<newline>'') ?xs"
    using assms by (induction ls) auto
  have "\<forall>x \<in> set ?xs. CHR ''\<newline>'' \<notin> set x"
    using assms by auto
  then have "py_lines (concat ls) = ls"
    using py_lines_concat ls by metis
  then show ?thesis by (simp add: parse_faux_def)
qed

lemma faux_line_shape:
  assumes "faux_field_ok n" "faux_field_ok v" "faux_field_ok info"
  shows "\<exists>x. faux_line n v info = x @ ''\<newline>'' \<and> CHR ''\<newline>'' \<notin> set x"
  using assms
  by (intro exI [of _ "n @ '','' @ v @ '','' @ info @ '',''"]) (auto simp: faux_line_def faux_field_ok_def)

lemma pkg_lines_shape:
  assumes "pkg_fields_ok pkg"
  shows "\<forall>l \<in> set (pkg_lines pkg). \<exists>x. l = x @ ''\<newline>'' \<and> CHR ''\<newline>'' \<notin> set x"
proof -
  have "faux_field_ok (process_patch_list (patch_files pkg))"
    using assms by (simp add: pkg_fields_ok_def faux_field_ok_info)
  with assms show ?thesis
    by (auto simp: pkg_lines_def Let_def pkg_fields_ok_def list_all_iff intro: faux_line_shape)
qed

lemma parse_pkg_lines:
  assumes "pkg_fields_ok pkg"
  shows "map parse_faux_line (pkg_lines pkg) = map Some (pkg_records pkg)"
proof -
  have "faux_field_ok (process_patch_list (patch_files pkg))"
    using assms by (simp add: pkg_fields_ok_def faux_field_ok_info)
  with assms show ?thesis
    by (auto simp: pkg_lines_def pkg_records_def Let_def pkg_fields_ok_def list_all_iff parse_faux_line_ok)
qed

lemma parse_faux_packages:
  assumes "list_all pkg_fields_ok qs"
  shows "parse_faux (concat (map pkg_faux_text qs)) = Some (concat (map pkg_records qs))"
proof -
  have c: "concat (map pkg_faux_text qs) = concat (concat (map pkg_lines qs))"
    by (induction qs) (simp_all add: pkg_faux_text_lines)
  have shape: "\<forall>l \<in> set (concat (map pkg_lines qs)). \<exists>x. l = x @ ''\<newline>'' \<and> CHR ''\<newline>'' \<notin> set x"
    using assms pkg_lines_shape by (fastforce simp: list_all_iff)
  have "map parse_faux_line (concat (map pkg_lines qs)) = map Some (concat (map pkg_records qs))"
    using assms by (induction qs) (simp_all add: parse_pkg_lines)
  with c shape show ?thesis
    by (simp add: parse_faux_concat those_map_Some)
qed

text \<open>C14: Refinement of the batch file: from an initialized plugin and an empty faux file, after any sequence of packages whose fields contain no comma and no newline, the faux file reads back as exactly the records of the packages up to the first one the plugin rejects, in build order.\<close>

theorem faux_file_records:
  assumes "initialized c" and "logfile c \<noteq> faux_path c" and "list_all pkg_fields_ok pkgs"
    and "file_text w (faux_path c) = []"
  shows "\<exists>c' w'. process_packages c pkgs w = (Inr c', w')
     \<and> parse_faux (file_text w' (faux_path c)) = Some (concat (map pkg_records (takeWhile pkg_args_ok pkgs)))"
proof -
  obtain c' w' where run: "process_packages c pkgs w = (Inr c', w')"
    and t: "file_text w' (faux_path c) = file_text w (faux_path c)
          @ (if initialized c then concat (map pkg_faux_text (takeWhile pkg_args_ok pkgs)) else [])"
    using process_packages_run [OF assms(2)] by blast
  have "list_all pkg_fields_ok (takeWhile pkg_args_ok pkgs)"
    using assms(3) by (auto simp: list_all_iff dest: set_takeWhileD)
  then have "parse_faux (concat (map pkg_faux_text (takeWhile pkg_args_ok pkgs)))
      = Some (concat (map pkg_records (takeWhile pkg_args_ok pkgs)))"
    by (rule parse_faux_packages)
  with run t assms(1,4) show ?thesis by auto
qed


lemma demo_facts:
  "initialized demo_checker" "pkg_args_ok demo_pkg" "logfile demo_checker \<noteq> faux_path demo_checker"
  "pkg_fields_ok demo_pkg"
  by (simp_all add: demo_checker_def demo_config_def checker_of_config_def demo_pkg_def
      pkg_args_ok_def faux_path_def pkglist_def pkg_fields_ok_def faux_field_ok_def)

text \<open>C2: When the plugin is initialized and the package has a name, a version and at least one patch, \<open>process_package\<close> returns without an exception, keeps the plugin enabled, and appends to the faux file exactly the package's line followed by one line per alias, all carrying the CVE identifiers of its patches.\<close>

theorem process_package_records:
  assumes "initialized c" and "pkg_args_ok pkg" and "logfile c \<noteq> faux_path c"
  shows "\<exists>w'. process_package c pkg w = (Inr c, w')
     \<and> file_text w' (faux_path c) = file_text w (faux_path c) @ pkg_faux_text pkg"
  using assms by (simp add: process_package_accept)

theorem process_package_records_witness:
  "initialized demo_checker \<and> pkg_args_ok demo_pkg \<and> logfile demo_checker \<noteq> faux_path demo_checker
   \<and> (\<exists>w'. process_package demo_checker demo_pkg demo_world = (Inr demo_checker, w')
     \<and> file_text w' (faux_path demo_checker) = file_text demo_world (faux_path demo_checker) @ pkg_faux_text demo_pkg)"
  using demo_facts(1-3) process_package_records [OF demo_facts(1-3), of demo_world] by blast

text \<open>C5: When the plugin is initialized but the package lacks a name, a version or patches, \<open>process_package\<close> writes nothing to the faux file and turns the plugin off (\<open>initialized\<close> becomes false).\<close>

theorem process_package_disables:
  assumes "initialized c" and "\<not> pkg_args_ok pkg" and "logfile c \<noteq> faux_path c"
  shows "\<exists>w'. process_package c pkg w = (Inr (c\<lparr>initialized := False\<rparr>), w')
     \<and> files w' (faux_path c) = files w (faux_path c)"
  using assms by (simp add: process_package_reject)

theorem process_package_disables_witness:
  "initialized demo_checker \<and> \<not> pkg_args_ok (demo_pkg\<lparr>patch_files := []\<rparr>)
   \<and> logfile demo_checker \<noteq> faux_path demo_checker
   \<and> (\<exists>w'. process_package demo_checker (demo_pkg\<lparr>patch_files := []\<rparr>) demo_world
         = (Inr (demo_checker\<lparr>initialized := False\<rparr>), w')
       \<and> files w' (faux_path demo_checker) = files demo_world (faux_path demo_checker))"
proof -
  have n: "\<not> pkg_args_ok (demo_pkg\<lparr>patch_files := []\<rparr>)"
    by (simp add: pkg_args_ok_def)
  show ?thesis
    using demo_facts(1,3) n process_package_disables [OF demo_facts(1) n demo_facts(3), of demo_world]
    by blast
qed

text \<open>C22: When the plugin is not initialized, \<open>process_package\<close> changes neither the plugin nor the faux file; it only logs.\<close>

theorem process_package_uninitialized_noop:
  assumes "\<not> initialized c" and "logfile c \<noteq> faux_path c"
  shows "\<exists>w'. process_package c pkg w = (Inr c, w') \<and> files w' (faux_path c) = files w (faux_path c)"
  using assms by (simp add: process_package_uninit)

theorem process_package_uninitialized_noop_witness:
  "\<not> initialized (checker_of_config demo_config)
   \<and> logfile (checker_of_config demo_config) \<noteq> faux_path (checker_of_config demo_config)
   \<and> (\<exists>w'. process_package (checker_of_config demo_config) demo_pkg demo_world
         = (Inr (checker_of_config demo_config), w')
       \<and> files w' (faux_path (checker_of_config demo_config))
         = files demo_world (faux_path (checker_of_config demo_config)))"
proof -
  have a: "\<not> initialized (checker_of_config demo_config)"
    and b: "logfile (checker_of_config demo_config) \<noteq> faux_path (checker_of_config demo_config)"
    by (simp_all add: checker_of_config_def demo_config_def faux_path_def pkglist_def)
  show ?thesis
    using a b process_package_uninitialized_noop [OF a b, of demo_pkg demo_world] by blast
qed

text \<open>C17: Over a build, the first package without patches (or without a name or version) silences the plugin: the faux file receives the lines of the packages before it and of no package after it, and the plugin ends disabled.\<close>

theorem process_packages_silenced:
  assumes "initialized c" and "logfile c \<noteq> faux_path c" and "list_all pkg_args_ok before"
    and "\<not> pkg_args_ok pkg"
  shows "\<exists>c' w'. process_packages c (before @ pkg # after) w = (Inr c', w')
     \<and> \<not> initialized c'
     \<and> file_text w' (faux_path c) = file_text w (faux_path c) @ concat (map pkg_faux_text before)"
proof -
  have tw: "takeWhile pkg_args_ok (before @ pkg # after) = before"
    using assms(3,4) by (simp add: takeWhile_append2 list_all_iff)
  have nl: "\<not> list_all pkg_args_ok (before @ pkg # after)"
    using assms(4) by simp
  show ?thesis
    using process_packages_run [OF assms(2), of "before @ pkg # after" w] assms(1) tw nl
    by auto
qed

theorem process_packages_silenced_witness:
  "initialized demo_checker \<and> logfile demo_checker \<noteq> faux_path demo_checker
   \<and> list_all pkg_args_ok [demo_pkg] \<and> \<not> pkg_args_ok (demo_pkg\<lparr>patch_files := []\<rparr>)
   \<and> (\<exists>c' w'. process_packages demo_checker ([demo_pkg] @ demo_pkg\<lparr>patch_files := []\<rparr> # [demo_pkg]) demo_world
         = (Inr c', w')
       \<and> \<not> initialized c'
       \<and> file_text w' (faux_path demo_checker)
         = file_text demo_world (faux_path demo_checker) @ concat (map pkg_faux_text [demo_pkg]))"
proof -
  have a: "list_all pkg_args_ok [demo_pkg]" using demo_facts(2) by simp
  have n: "\<not> pkg_args_ok (demo_pkg\<lparr>patch_files := []\<rparr>)"
    by (simp add: pkg_args_ok_def)
  show ?thesis
    using demo_facts(1,3) a n
      process_packages_silenced [OF demo_facts(1,3) a n, of "[demo_pkg]" demo_world]
    by blast
qed

text \<open>C13: Round trip of the faux format: when the package's name, version, patch names and aliases contain no comma and no newline, the text \<open>process_package\<close> appends reads back as the records (name, version, CVE info), one per line, for the package and then for each alias.\<close>

theorem faux_roundtrip:
  "pkg_fields_ok pkg \<Longrightarrow> parse_faux (pkg_faux_text pkg) = Some (pkg_records pkg)"
  using parse_faux_packages [of "[pkg]"] by simp

theorem faux_roundtrip_witness:
  "pkg_fields_ok demo_pkg \<and> parse_faux (pkg_faux_text demo_pkg) = Some (pkg_records demo_pkg)"
  using demo_facts(4) faux_roundtrip [OF demo_facts(4)] by blast

lemma checker_of_config_uninit [simp]:
  "(checker_of_config cfg)\<lparr>initialized := False\<rparr> = checker_of_config cfg"
  by (simp add: checker_of_config_def)

text \<open>C24: The constructor never raises: \<open>__init__\<close> runs \<open>which cve-check-tool\<close> once and the plugin is initialized exactly when that command ran and printed something.\<close>

theorem ISA_CVEChecker_init_result:
  "\<exists>w'. ISA_CVEChecker_init sh cfg w
     = (Inr ((checker_of_config cfg)\<lparr>initialized :=
          (case sh (map fst (trace w)) ''which cve-check-tool'' (files w) of
             Raised e \<Rightarrow> False | Done fs out err rc \<Rightarrow> out \<noteq> [])\<rparr>), w')
     \<and> trace w' = trace w @ [(''which cve-check-tool'', outcome_of (sh (map fst (trace w)) ''which cve-check-tool'' (files w)))]"
  by (cases "sh (map fst (trace w)) ''which cve-check-tool'' (files w)")
     (auto simp: ISA_CVEChecker_init_def Let_def popen_def try_else_def ret_def outcome_of_def)

theorem faux_file_records_witness:
  "initialized demo_checker \<and> logfile demo_checker \<noteq> faux_path demo_checker
   \<and> list_all pkg_fields_ok [demo_pkg, demo_pkg\<lparr>name := ''zlib''\<rparr>]
   \<and> file_text demo_world (faux_path demo_checker) = []
   \<and> (\<exists>c' w'. process_packages demo_checker [demo_pkg, demo_pkg\<lparr>name := ''zlib''\<rparr>] demo_world = (Inr c', w')
     \<and> parse_faux (file_text w' (faux_path demo_checker))
       = Some (concat (map pkg_records (takeWhile pkg_args_ok [demo_pkg, demo_pkg\<lparr>name := ''zlib''\<rparr>]))))"
proof -
  have f: "list_all pkg_fields_ok [demo_pkg, demo_pkg\<lparr>name := ''zlib''\<rparr>]"
    using demo_facts(4) by (simp add: pkg_fields_ok_def faux_field_ok_def)
  have e: "file_text demo_world (faux_path demo_checker) = []"
    by (simp add: demo_world_def file_text_def)
  show ?thesis
    using demo_facts(1,3) f e faux_file_records [OF demo_facts(1,3) f e] by blast
qed

end
