(* ===== verification/XmlReport.thy ===== *)
theory XmlReport
  imports Checker
begin

text \<open>
  \<open>ISA_CVEChecker.write_report_xml\<close> (\<open>ISA_cve_plugin.py\<close>, lines 118--156): the
  JUnit-style XML report \<open><reportdir>/cve_report.xml\<close> built with ElementTree. On an
  error string from \<open>cve-check-tool\<close> it holds one failing test case carrying the
  error; otherwise it reads the CSV report line by line and makes one test case per
  line, failing when the third comma-separated field starts with \<open>CVE\<close>. The
  \<open>tests\<close> attribute is set to the number of test cases at the end. Which of
  \<open>lxml\<close> or \<open>xml.etree\<close> is imported, and the \<open>TypeError\<close> retry of
  \<open>tree.write\<close> without \<open>pretty_print\<close>, change only the bytes written, not the
  tree: the model stores the tree.
\<close>

subsection \<open>Definitions\<close>

definition testsuite_root :: xml where
  "testsuite_root = xml_element ''testsuite'' [(''name'', ''CVE_Plugin''), (''tests'', ''1'')]"

definition failure_elem :: "string \<Rightarrow> xml" where
  "failure_elem message = xml_element ''failure'' [(''message'', message), (''type'', ''violation'')]"

definition testcase_elem :: "string \<Rightarrow> xml" where
  "testcase_elem tname = xml_element ''testcase'' [(''classname'', ''ISA_CVEChecker''), (''name'', tname)]"

text \<open>The test case of one CSV line (lines 137--147).\<close>

definition csv_testcase :: "string \<Rightarrow> xml" where
  "csv_testcase line0 =
     (let line = py_strip line0;
          line_sp = py_split_max CHR '','' 2 line;
          tname = hd (py_split_max CHR '','' 1 line) in
      if 3 \<le> length line_sp \<and> prefix ''CVE'' (line_sp ! 2)
      then xml_subelement (testcase_elem tname) (failure_elem line)
      else testcase_elem tname)"

text \<open>The \<open>for line in f\<close> loop: one \<open>SubElement\<close> and one increment of
  \<open>num_tests\<close> per line.\<close>

fun csv_rows :: "xml \<Rightarrow> nat \<Rightarrow> string list \<Rightarrow> xml \<times> nat" where
  "csv_rows root num_tests [] = (root, num_tests)"
| "csv_rows root num_tests (line # lines) =
     csv_rows (xml_subelement root (csv_testcase line)) (Suc num_tests) lines"

definition write_report_xml :: "checker \<Rightarrow> string \<Rightarrow> unit py" where
  "write_report_xml c result =
     bindp
       (if result \<noteq> [] then
          ret (xml_subelement testsuite_root
                 (xml_subelement (testcase_elem ''Error in cve-check-tool'') (failure_elem result)), 1)
        else bindp (read_file (csv_report_name c))
               (\<lambda>content. ret (csv_rows testsuite_root 0 (py_lines content))))
       (\<lambda>(root, num_tests).
          write_xml (csv_report_name c @ ''.xml'') (xml_set root ''tests'' (py_str_int (int num_tests))))"

subsection \<open>Observations on a test case\<close>

text \<open>A test case fails when it has a \<open>failure\<close> child; its name is its
  \<open>name\<close> attribute.\<close>

definition is_failure :: "xml \<Rightarrow> bool" where
  "is_failure t \<longleftrightarrow> xml_children t \<noteq> []"

definition tc_name :: "xml \<Rightarrow> string option" where
  "tc_name t = map_of (xml_attrs t) ''name''"

definition tests_attr :: "xml \<Rightarrow> string option" where
  "tests_attr t = map_of (xml_attrs t) ''tests''"

definition csv_xml :: "string \<Rightarrow> xml" where
  "csv_xml content = (case csv_rows testsuite_root 0 (py_lines content) of
     (root, num_tests) \<Rightarrow> xml_set root ''tests'' (py_str_int (int num_tests)))"

subsection \<open>Lemmas\<close>

lemma is_failure_testcase [simp]: "\<not> is_failure (testcase_elem n)"
  by (simp add: is_failure_def testcase_elem_def xml_element_def)

lemma is_failure_sub [simp]: "is_failure (xml_subelement t f)"
  by (simp add: is_failure_def)

text \<open>C16: A CSV line yields a failing test case exactly when, once stripped, it reads \<open>name,version,CVE...\<close> with no comma in name and version: the code's \<open>split(',', 2)\<close> test against a decomposition of the line.\<close>

theorem csv_testcase_failure_iff:
  "is_failure (csv_testcase l) \<longleftrightarrow>
     (\<exists>n v r. py_strip l = n @ '','' @ v @ '','' @ ''CVE'' @ r \<and> CHR '','' \<notin> set n \<and> CHR '','' \<notin> set v)"
  (is "?lhs \<longleftrightarrow> ?rhs")
proof
  assume ?lhs
  then obtain sp where sp: "sp = py_split_max CHR '','' 2 (py_strip l)"
    and g: "3 \<le> length sp" "prefix ''CVE'' (sp ! 2)"
    by (auto simp: csv_testcase_def Let_def split: if_splits)
  have "length sp \<le> 3"
    using length_py_split_max [of "CHR '',''" 2 "py_strip l"] sp by simp
  with g have "length sp = 3" by simp
  then obtain a b r where abr: "sp = [a, b, r]"
    by (auto simp: numeral_3_eq_3 length_Suc_conv)
  from abr g obtain r' where "r = ''CVE'' @ r'"
    by (auto simp: prefix_def)
  with abr sp py_split_max_2_decomp [of "CHR '',''" "py_strip l" a b r] show ?rhs
    by auto
next
  assume ?rhs
  then obtain n v r where eq: "py_strip l = n @ '','' @ v @ '','' @ ''CVE'' @ r"
    and nv: "CHR '','' \<notin> set n" "CHR '','' \<notin> set v"
    by blast
  have "py_split_max CHR '','' 2 (py_strip l) = [n, v, ''CVE'' @ r]"
    using eq nv py_split_max_2_build [of "CHR '',''" n v "''CVE'' @ r"] by simp
  then show ?lhs
    by (simp add: csv_testcase_def Let_def)
qed

lemma csv_rows_eq:
  "snd (csv_rows root n ls) = n + length ls
   \<and> xml_children (fst (csv_rows root n ls)) = xml_children root @ map csv_testcase ls
   \<and> xml_attrs (fst (csv_rows root n ls)) = xml_attrs root
   \<and> xml_tag (fst (csv_rows root n ls)) = xml_tag root"
  by (induction ls arbitrary: root n) auto

text \<open>The document \<open>write_report_xml\<close> builds from a CSV report, and its shape.\<close>

lemma csv_xml_shape:
  "xml_tag (csv_xml content) = ''testsuite''
   \<and> xml_children (csv_xml content) = map csv_testcase (py_lines content)
   \<and> tests_attr (csv_xml content) = Some (py_str_int (int (length (py_lines content))))"
  using csv_rows_eq [of testsuite_root 0 "py_lines content"]
  by (cases "csv_rows testsuite_root 0 (py_lines content)")
     (simp add: csv_xml_def tests_attr_def testsuite_root_def xml_element_def)

lemma write_report_xml_Nil:
  "files w (csv_report_name c) = Some content \<Longrightarrow>
   write_report_xml c [] w = (Inr (), w\<lparr>xml_out := (xml_out w)(csv_report_name c @ ''.xml'' \<mapsto> csv_xml content)\<rparr>)"
  by (simp add: write_report_xml_def bindp_def read_file_def ret_def write_xml_def csv_xml_def split: prod.splits)

lemma write_report_xml_no_csv:
  "files w (csv_report_name c) = None \<Longrightarrow>
     write_report_xml c [] w = (Inl (IOError (csv_report_name c)), w)"
  by (simp add: write_report_xml_def bindp_def read_file_def)

text \<open>C12: On the success path (empty error string, CSV report present) \<open>write_report_xml\<close> writes a test suite with one test case per line of the CSV report, in order, and its \<open>tests\<close> attribute is the decimal count of those lines.\<close>

theorem write_report_xml_csv:
  assumes "files w (csv_report_name c) = Some content"
  shows "\<exists>x. write_report_xml c [] w = (Inr (), w\<lparr>xml_out := (xml_out w)(csv_report_name c @ ''.xml'' \<mapsto> x)\<rparr>)
     \<and> xml_tag x = ''testsuite''
     \<and> xml_children x = map csv_testcase (py_lines content)
     \<and> tests_attr x = Some (py_str_int (int (length (py_lines content))))"
  using write_report_xml_Nil [OF assms] csv_xml_shape [of content]
  by (intro exI [of _ "csv_xml content"]) simp

text \<open>C20: On the error path (non-empty error string) the XML report holds a single test case named \<open>Error in cve-check-tool\<close> whose only child is the failure carrying the error, and \<open>tests\<close> is \<open>1\<close>; the CSV report is not read.\<close>

theorem write_report_xml_error:
  assumes "result \<noteq> []"
  shows "\<exists>x. write_report_xml c result w = (Inr (), w\<lparr>xml_out := (xml_out w)(csv_report_name c @ ''.xml'' \<mapsto> x)\<rparr>)
     \<and> tests_attr x = Some ''1''
     \<and> (\<exists>t. xml_children x = [t] \<and> tc_name t = Some ''Error in cve-check-tool''
           \<and> xml_children t = [failure_elem result])"
  using assms
  by (intro exI [of _ "xml_set (xml_subelement testsuite_root
         (xml_subelement (testcase_elem ''Error in cve-check-tool'') (failure_elem result))) ''tests'' ''1''"])
     (simp add: write_report_xml_def bindp_def ret_def write_xml_def tests_attr_def tc_name_def
      testsuite_root_def testcase_elem_def xml_element_def)

theorem write_report_xml_csv_witness:
  "files (demo_world\<lparr>files := [''/r/cve_report'' \<mapsto> ''zlib,1.2,CVE-2016-9840\<newline>bash,4.3,\<newline>'']\<rparr>)
       (csv_report_name demo_checker) = Some ''zlib,1.2,CVE-2016-9840\<newline>bash,4.3,\<newline>''
   \<and> (\<exists>x. write_report_xml demo_checker []
          (demo_world\<lparr>files := [''/r/cve_report'' \<mapsto> ''zlib,1.2,CVE-2016-9840\<newline>bash,4.3,\<newline>'']\<rparr>)
        = (Inr (), (demo_world\<lparr>files := [''/r/cve_report'' \<mapsto> ''zlib,1.2,CVE-2016-9840\<newline>bash,4.3,\<newline>'']\<rparr>)
             \<lparr>xml_out := (xml_out (demo_world\<lparr>files := [''/r/cve_report'' \<mapsto> ''zlib,1.2,CVE-2016-9840\<newline>bash,4.3,\<newline>'']\<rparr>))
                 (csv_report_name demo_checker @ ''.xml'' \<mapsto> x)\<rparr>)
      \<and> xml_tag x = ''testsuite''
      \<and> xml_children x = map csv_testcase (py_lines ''zlib,1.2,CVE-2016-9840\<newline>bash,4.3,\<newline>'')
      \<and> tests_attr x = Some (py_str_int (int (length (py_lines ''zlib,1.2,CVE-2016-9840\<newline>bash,4.3,\<newline>'')))))"
proof -
  have h: "files (demo_world\<lparr>files := [''/r/cve_report'' \<mapsto> ''zlib,1.2,CVE-2016-9840\<newline>bash,4.3,\<newline>'']\<rparr>)
       (csv_report_name demo_checker) = Some ''zlib,1.2,CVE-2016-9840\<newline>bash,4.3,\<newline>''"
    by (simp add: demo_checker_def demo_config_def checker_of_config_def)
  show ?thesis using h write_report_xml_csv [OF h] by blast
qed

theorem write_report_xml_error_witness:
  "''timeout'' \<noteq> []
   \<and> (\<exists>x. write_report_xml demo_checker ''timeout'' demo_world
        = (Inr (), demo_world\<lparr>xml_out := (xml_out demo_world)(csv_report_name demo_checker @ ''.xml'' \<mapsto> x)\<rparr>)
      \<and> tests_attr x = Some ''1''
      \<and> (\<exists>t. xml_children x = [t] \<and> tc_name t = Some ''Error in cve-check-tool''
            \<and> xml_children t = [failure_elem ''timeout'']))"
proof -
  have h: "''timeout'' \<noteq> []" by simp
  show ?thesis using h write_report_xml_error [OF h] by blast
qed

end
