(* ===== verification/Report.thy ===== *)
theory Report
  imports XmlReport
begin

text \<open>
  Report generation (\<open>ISA_cve_plugin.py\<close>): \<open>mapping_of_kernel\<close> (lines 214--237)
  runs the side script \<open>set_linux_name.sh\<close> that renames kernel packages;
  \<open>process_report_type\<close> (lines 158--212) runs that script on the faux file, then
  \<open>cve-check-tool\<close> once, and once more when the first run wrote to standard error,
  stores the tool's output as the CSV or HTML report, and returns the error text (empty
  on success); \<open>process_report\<close> (lines 99--116) runs it for CSV and for HTML,
  removes the faux file and writes the XML report from the second verdict. The
  process outcomes come from the shell oracle; the trace of the world records every
  command with its outcome, so the theorems can speak of the tool's runs.
  The tool's standard error is a Python 2 byte string: its \<open>decode('utf-8')\<close> inside the
  \<open>try\<close> (line 183) and outside it (line 196), and the log write of the unicode error
  text (line 211), raise on bytes that are not UTF-8 and on text that is not ASCII, as
  in the program.
\<close>

subsection \<open>Definitions\<close>

text \<open>\<open>str(sys.exc_info())\<close> of a caught exception.\<close>

definition exc_info :: "exc \<Rightarrow> string" where
  "exc_info e = (case e of ProcError s \<Rightarrow> s | IOError p \<Rightarrow> p | OSError p \<Rightarrow> p | AttributeError s \<Rightarrow> s
     | UnicodeDecodeError s \<Rightarrow> s | UnicodeEncodeError s \<Rightarrow> s)"

text \<open>\<open>flog.write(s)\<close> of a unicode string \<open>s\<close> on the log opened in text mode: Python 2
  encodes it as ASCII first, and raises before writing when that fails.\<close>

definition log_unicode :: "checker \<Rightarrow> string \<Rightarrow> unit py" where
  "log_unicode c s = (if py_ascii s then log c s else raise (UnicodeEncodeError s))"

definition kernel_script :: "checker \<Rightarrow> string" where
  "kernel_script c = tmp_dir c @ ''/work/x86_64-linux/cve-check-tool-native/git-r0/set_linux_name.sh ''"

definition kernel_versions_file :: "checker \<Rightarrow> string" where
  "kernel_versions_file c =
     tmp_dir c @ ''/work/x86_64-linux/cve-check-tool-native/git-r0/mentor_kernel_versions.txt ''"

definition kernel_name_cmd :: "checker \<Rightarrow> string \<Rightarrow> string \<Rightarrow> string \<Rightarrow> string" where
  "kernel_name_cmd c file_and_dir mapping_mode custom_name =
     (if mapping_mode \<noteq> ''custom'' then
        ''chmod +x '' @ kernel_script c @ '' && '' @ kernel_script c @ file_and_dir @ '' ''
        @ kernel_versions_file c
      else
        ''chmod +x '' @ kernel_script c @ '' && '' @ kernel_script c @ file_and_dir @ '' ''
        @ kernel_versions_file c @ ''Custom '' @ custom_name)"

definition mapping_of_kernel :: "shell \<Rightarrow> checker \<Rightarrow> string \<Rightarrow> string \<Rightarrow> string \<Rightarrow> string py" where
  "mapping_of_kernel sh c file_and_dir mapping_mode custom_name =
     (let set_linux_kernel_name_arg = kernel_name_cmd c file_and_dir mapping_mode custom_name in
      seqp (log c (''\<newline>Mine: '' @ set_linux_kernel_name_arg))
        (bindp (popen sh set_linux_kernel_name_arg)
           (\<lambda>(output, _, _). seqp (log c (''\<newline>Kernel Name: '' @ output @ ''\<newline>'')) (ret output))))"

text \<open>The command line of \<open>cve-check-tool\<close> (lines 165--174).\<close>

definition tool_args :: "checker \<Rightarrow> string \<Rightarrow> string" where
  "tool_args c rtype =
     (if proxy c \<noteq> [] then ''https_proxy='' @ proxy c @ '' http_proxy='' @ proxy c @ '' '' else [])
     @ ''cve-check-tool ''
     @ (if cacert c \<noteq> [] then ''--cacert '' @ [CHR 0x27] @ cacert c @ [CHR 0x27] @ '' '' else [])
     @ (if rtype \<noteq> ''html'' then ''-c '' else [])
     @ ''-a -t faux '' @ [CHR 0x27] @ faux_path c @ [CHR 0x27]"

text \<open>One run of the tool and the blind retry when it wrote to standard error
  (lines 180--188); the test decodes the standard error (line 183), which raises on
  bytes that are not UTF-8.\<close>

definition run_tool :: "shell \<Rightarrow> checker \<Rightarrow> string \<Rightarrow> (string \<times> string \<times> int) py" where
  "run_tool sh c args =
     bindp (popen sh args)
       (\<lambda>result. bindp (py_decode_utf8 (fst (snd result)))
          (\<lambda>err. if err \<noteq> [] then
                   seqp (log c ''\<newline>error occured. Retrying '') (popen sh args)
                 else ret result))"

text \<open>The \<open>try\<close> block (lines 177--188): the kernel-name script on the faux file,
  then the tool with its retry.\<close>

definition report_try :: "shell \<Rightarrow> checker \<Rightarrow> string \<Rightarrow> string \<Rightarrow> (string \<times> string \<times> string \<times> int) py" where
  "report_try sh c args faux_directory =
     bindp (mapping_of_kernel sh c faux_directory '' '' '' '')
       (\<lambda>output. bindp (run_tool sh c args) (\<lambda>result. ret (output, result)))"

text \<open>The \<open>except\<close> block (lines 189--193).\<close>

definition report_except :: "checker \<Rightarrow> exc \<Rightarrow> string py" where
  "report_except c e =
     seqp (log c (''Error in executing cve-check-tool: '' @ exc_info e))
       (ret (''Error in executing cve-check-tool'' @ exc_info e))"

text \<open>The report a run of type \<open>rtype\<close> stores (lines 197--200).\<close>

definition report_name :: "checker \<Rightarrow> string \<Rightarrow> string" where
  "report_name c rtype = (if rtype \<noteq> ''html'' then csv_report_name c else html_report_name c)"

text \<open>The \<open>else\<close> block (lines 194--211), outside the \<open>try\<close>: decode the standard
  error (line 196), then store the report on a clean run (and, for CSV, run the
  kernel-name script on it), or build the error text and log it as unicode.\<close>

definition report_else :: "shell \<Rightarrow> checker \<Rightarrow> string \<Rightarrow> string \<times> string \<times> string \<times> int \<Rightarrow> string py" where
  "report_else sh c rtype r =
     (case r of (output, stdout_value, stderr_bytes, returncode) \<Rightarrow>
      bindp (py_decode_utf8 stderr_bytes) (\<lambda>tool_stderr_value.
        if tool_stderr_value = [] \<and> returncode = 0 then
          (let report = report_name c rtype in
           seqp (write_file report stdout_value)
             (if rtype = ''csv'' then
                bindp (mapping_of_kernel sh c report ''custom'' output) (\<lambda>_. ret tool_stderr_value)
              else ret tool_stderr_value))
        else
          (let tool_stderr_value' = tool_stderr_value
                 @ ''\<newline>cve-check-tool terminated with exit code '' @ py_str_int returncode in
           seqp (log_unicode c (''error: '' @ tool_stderr_value')) (ret tool_stderr_value'))))"

definition process_report_type :: "shell \<Rightarrow> checker \<Rightarrow> string \<Rightarrow> string py" where
  "process_report_type sh c rtype0 =
     (let args = tool_args c rtype0;
          rtype = (if rtype0 \<noteq> ''html'' then ''csv'' else rtype0);
          faux_directory = faux_path c in
      seqp (log c (''Args: '' @ args))
        (try_else (report_try sh c args faux_directory) (report_except c) (report_else sh c rtype)))"

definition process_report :: "shell \<Rightarrow> checker \<Rightarrow> unit py" where
  "process_report sh c w =
     (if \<not> isfile (faux_path c) w then ret () w
      else if initialized c then
        seqp (log c ''Creating report in CSV format.\<newline>'')
          (bindp (process_report_type sh c ''csv'')
             (\<lambda>result. seqp (log c ''Creating report in HTML format.\<newline>'')
                (bindp (process_report_type sh c ''html'')
                   (\<lambda>result. seqp (remove_file (faux_path c))
                      (seqp (log c ''Creating report in XML format.\<newline>'')
                         (write_report_xml c result)))))) w
      else ret () w)"

subsection \<open>Observing the tool's runs\<close>

text \<open>The outcomes of the runs of one command in a piece of trace, and what a clean
  run is: exit code 0 and nothing on standard error.\<close>

definition runs_of :: "string \<Rightarrow> (string \<times> outcome) list \<Rightarrow> outcome list" where
  "runs_of cmd tr = map snd (filter (\<lambda>(c', _). c' = cmd) tr)"

definition clean_run :: "outcome \<Rightarrow> bool" where
  "clean_run r \<longleftrightarrow> (case r of Inl e \<Rightarrow> False | Inr (out, err, rc) \<Rightarrow> err = [] \<and> rc = 0)"

definition stderr_of :: "outcome \<Rightarrow> string" where
  "stderr_of r = (case r of Inl e \<Rightarrow> [] | Inr (out, err, rc) \<Rightarrow> err)"

definition new_trace :: "world \<Rightarrow> world \<Rightarrow> (string \<times> outcome) list" where
  "new_trace w w' = drop (length (trace w)) (trace w')"

text \<open>What \<open>popen\<close> returns for an outcome, and the files a process leaves.\<close>

definition outcome_value :: "outcome \<Rightarrow> exc + (string \<times> string \<times> int)" where
  "outcome_value r = (case r of Inl e \<Rightarrow> Inl (ProcError e) | Inr x \<Rightarrow> Inr x)"

definition proc_files :: "proc_result \<Rightarrow> fsys \<Rightarrow> fsys" where
  "proc_files r fs = (case r of Raised e \<Rightarrow> fs | Done fs' out err rc \<Rightarrow> fs')"

text \<open>A shell whose commands leave the files alone and whose outcome depends on the command line only, as \<open>cve-check-tool\<close> reading an unchanged faux file against an unchanged database does.\<close>

definition static_shell :: "(string \<Rightarrow> string \<times> string \<times> int) \<Rightarrow> shell" where
  "static_shell f hist cmd fs = (case f cmd of (out, err, rc) \<Rightarrow> Done fs out err rc)"

text \<open>What \<open>process_report_type\<close> returns or raises when every run of the tool has the outcome \<open>(stdout, stderr, returncode)\<close>: stderr that is not UTF-8 fails the decode inside the \<open>try\<close> (line 183) and yields the \<open>except\<close> text; otherwise the empty verdict on a clean run, the error text (lines 208--209) when it is ASCII, and the \<open>UnicodeEncodeError\<close> of the log write (line 211) when it is not.\<close>

definition tool_verdict :: "string \<times> string \<times> int \<Rightarrow> exc + string" where
  "tool_verdict r = (case r of (out, err, rc) \<Rightarrow>
     if \<not> utf8_valid err then Inr (''Error in executing cve-check-tool'' @ exc_info (UnicodeDecodeError err))
     else if err = [] \<and> rc = 0 then Inr []
     else if py_ascii err then Inr (err @ ''\<newline>cve-check-tool terminated with exit code '' @ py_str_int rc)
     else Inl (UnicodeEncodeError (''error: '' @ err @ ''\<newline>cve-check-tool terminated with exit code ''
                                   @ py_str_int rc)))"

text \<open>Two worlds whose files agree except at \<open>p\<close>.\<close>

definition files_but :: "string \<Rightarrow> world \<Rightarrow> world \<Rightarrow> bool" where
  "files_but p w w' \<longleftrightarrow> (\<forall>q. q \<noteq> p \<longrightarrow> files w' q = files w q)"

text \<open>Concrete shells and worlds: in \<open>demo_shell\<close> the first HTML run of the tool times out and the retry succeeds; under \<open>demo_tool_fails\<close> the CSV run fails and the HTML run succeeds; under \<open>demo_tool_ok\<close> both succeed and the tool is installed; under \<open>demo_tool_unicode\<close> the HTML run fails with a UTF-8 message that is not ASCII (the French word for network, with an e acute). \<open>demo_batch_world\<close> holds a faux file of one package.\<close>

definition demo_shell :: shell where
  "demo_shell hist cmd fs =
     (if cmd = tool_args demo_checker ''html'' \<and> cmd \<notin> set hist
      then Done fs [] ''timeout'' 1 else Done fs ''report'' [] 0)"

definition demo_tool_fails :: "string \<Rightarrow> string \<times> string \<times> int" where
  "demo_tool_fails cmd =
     (if cmd = tool_args demo_checker ''csv'' then ([], ''fetch failed'', 1)
      else if cmd = tool_args demo_checker ''html'' then (''<html/>'', [], 0)
      else ([], [], 0))"

definition demo_tool_ok :: "string \<Rightarrow> string \<times> string \<times> int" where
  "demo_tool_ok cmd =
     (if cmd = tool_args demo_checker ''csv'' then (''zlib,1.2,CVE-2016-9840\<newline>bash,4.3,\<newline>'', [], 0)
      else if cmd = tool_args demo_checker ''html'' then (''<html/>'', [], 0)
      else if cmd = ''which cve-check-tool'' then (''/usr/bin/cve-check-tool\<newline>'', [], 0)
      else ([], [], 0))"

definition demo_tool_unicode :: "string \<Rightarrow> string \<times> string \<times> int" where
  "demo_tool_unicode cmd =
     (if cmd = tool_args demo_checker ''html'' then ([], ''r'' @ [CHR 0xC3, CHR 0xA9] @ ''seau'', 1)
      else ([], [], 0))"

definition demo_batch_world :: world where
  "demo_batch_world = demo_world\<lparr>files := [faux_path demo_checker \<mapsto> ''openssl,1.0.2, CVE-2016-2105,\<newline>'']\<rparr>"

subsection \<open>Lemmas\<close>

lemma popen_eq:
  "popen sh cmd w = (let r = sh (map fst (trace w)) cmd (files w) in
     (outcome_value (outcome_of r), w\<lparr>files := proc_files r (files w), trace := trace w @ [(cmd, outcome_of r)]\<rparr>))"
  by (simp add: popen_def outcome_value_def outcome_of_def proc_files_def Let_def split: proc_result.splits)

lemma mapping_of_kernel_trace:
  assumes "mapping_of_kernel sh c f m n w = (r, w')"
  shows "\<exists>res. trace w' = trace w @ [(kernel_name_cmd c f m n, res)]
     \<and> (case res of Inl e \<Rightarrow> r = Inl (ProcError e) | Inr (out, err, rc) \<Rightarrow> r = Inr out)"
  using assms
  by (intro exI [of _ "outcome_of (sh (map fst (trace w)) (kernel_name_cmd c f m n)
        (files (appended w (logfile c) (''\<newline>Mine: '' @ kernel_name_cmd c f m n))))"])
     (auto simp: mapping_of_kernel_def Let_def bindp_def popen_eq outcome_value_def proc_files_def
      outcome_of_def ret_def split: proc_result.splits)

lemma clean_run_stderr: "clean_run r \<Longrightarrow> stderr_of r = []"
  by (auto simp: clean_run_def stderr_of_def split: sum.splits)

lemma run_tool_trace:
  assumes "run_tool sh c args w = (r, w')"
  shows "\<exists>rs. trace w' = trace w @ map (Pair args) rs \<and> rs \<noteq> [] \<and> length rs \<le> 2
     \<and> (length rs = 2 \<longleftrightarrow> stderr_of (hd rs) \<noteq> [] \<and> utf8_valid (stderr_of (hd rs)))
     \<and> (if utf8_valid (stderr_of (hd rs)) then r = outcome_value (last rs)
        else length rs = 1 \<and> r = Inl (UnicodeDecodeError (stderr_of (hd rs))))"
proof -
  let ?p1 = "sh (map fst (trace w)) args (files w)"
  show ?thesis
  proof (cases "\<exists>fs out err rc. ?p1 = Done fs out err rc \<and> err \<noteq> [] \<and> utf8_valid err")
    case False
    with assms show ?thesis
      by (intro exI [of _ "[outcome_of ?p1]"])
         (auto simp: run_tool_def bindp_def popen_eq ret_def outcome_value_def outcome_of_def
          proc_files_def stderr_of_def py_decode_utf8_def raise_def Let_def split: proc_result.splits)
  next
    case True
    then obtain fs out err rc where p1: "?p1 = Done fs out err rc" and e: "err \<noteq> []" "utf8_valid err"
      by blast
    let ?w1 = "appended (w\<lparr>files := fs, trace := trace w @ [(args, outcome_of ?p1)]\<rparr>) (logfile c)
                 ''\<newline>error occured. Retrying ''"
    let ?r2 = "outcome_of (sh (map fst (trace ?w1)) args (files ?w1))"
    from assms p1 e show ?thesis
      by (intro exI [of _ "[outcome_of ?p1, ?r2]"])
         (auto simp: run_tool_def bindp_def popen_eq outcome_value_def proc_files_def stderr_of_def
          outcome_of_def Let_def)
  qed
qed

lemma report_try_trace:
  assumes "report_try sh c args f w = (r, w')"
  shows "\<exists>kres rs. trace w' = trace w @ (kernel_name_cmd c f '' '' '' '', kres) # map (Pair args) rs
     \<and> (rs \<noteq> [] \<longrightarrow> length rs \<le> 2
          \<and> (length rs = 2 \<longleftrightarrow> stderr_of (hd rs) \<noteq> [] \<and> utf8_valid (stderr_of (hd rs))))
     \<and> (case r of
          Inl e \<Rightarrow> rs = [] \<or> \<not> clean_run (last rs)
        | Inr (out, so, err, rc) \<Rightarrow> rs \<noteq> [] \<and> last rs = Inr (so, err, rc))"
proof -
  obtain m w1 where m: "mapping_of_kernel sh c f '' '' '' '' w = (m, w1)"
    by (cases "mapping_of_kernel sh c f '' '' '' '' w") auto
  from mapping_of_kernel_trace [OF m] obtain kres where
    t1: "trace w1 = trace w @ [(kernel_name_cmd c f '' '' '' '', kres)]"
    and k: "case kres of Inl e \<Rightarrow> m = Inl (ProcError e) | Inr (out, err, rc) \<Rightarrow> m = Inr out"
    by blast
  show ?thesis
  proof (cases m)
    case (Inl e)
    with assms m t1 show ?thesis
      by (intro exI [of _ kres] exI [of _ "[]"]) (auto simp: report_try_def bindp_def)
  next
    case (Inr out)
    obtain q w2 where q: "run_tool sh c args w1 = (q, w2)"
      by (cases "run_tool sh c args w1") auto
    from run_tool_trace [OF q] obtain rs where
      t2: "trace w2 = trace w1 @ map (Pair args) rs" and ne: "rs \<noteq> []"
      and len: "length rs \<le> 2 \<and> (length rs = 2 \<longleftrightarrow> stderr_of (hd rs) \<noteq> [] \<and> utf8_valid (stderr_of (hd rs)))"
      and v: "if utf8_valid (stderr_of (hd rs)) then q = outcome_value (last rs)
              else length rs = 1 \<and> q = Inl (UnicodeDecodeError (stderr_of (hd rs)))"
      by blast
    have res: "r = (case q of Inl e \<Rightarrow> Inl e | Inr x \<Rightarrow> Inr (out, x))" "w' = w2"
      using assms m q Inr by (auto simp: report_try_def bindp_def ret_def split: sum.splits)
    have "case r of Inl e \<Rightarrow> rs = [] \<or> \<not> clean_run (last rs)
          | Inr (out, so, err, rc) \<Rightarrow> rs \<noteq> [] \<and> last rs = Inr (so, err, rc)"
    proof (cases "utf8_valid (stderr_of (hd rs))")
      case True
      with res v ne show ?thesis
        by (cases "last rs") (auto simp: outcome_value_def clean_run_def)
    next
      case False
      with v ne have "last rs = hd rs" "\<not> clean_run (hd rs)"
        by (auto simp: length_Suc_conv dest: clean_run_stderr)
      with False res v show ?thesis by auto
    qed
    with res t1 t2 len show ?thesis
      by (intro exI [of _ kres] exI [of _ rs]) simp
  qed
qed

lemma report_except_eq:
  "report_except c e w = (Inr (''Error in executing cve-check-tool'' @ exc_info e),
     appended w (logfile c) (''Error in executing cve-check-tool: '' @ exc_info e))"
  by (simp add: report_except_def log_def ret_def)

lemma kernel_name_cmd_not_tool [simp]: "kernel_name_cmd c f m n \<noteq> tool_args c' r"
proof
  assume "kernel_name_cmd c f m n = tool_args c' r"
  then have "take 2 (kernel_name_cmd c f m n) = take 2 (tool_args c' r)" by simp
  then show False
    by (simp add: kernel_name_cmd_def tool_args_def split: if_splits)
qed

lemma report_texts_ascii [simp]:
  "py_ascii ''error: ''" "py_ascii ''\<newline>cve-check-tool terminated with exit code ''"
  by code_simp+

lemma report_else_trace:
  assumes "report_else sh c rtype (out, so, err, rc) w = (r, w')"
  shows "\<exists>tail. trace w' = trace w @ tail \<and> (\<forall>x \<in> set tail. fst x \<noteq> tool_args c' rt)
     \<and> (\<forall>v. r = Inr v \<longrightarrow> (v = [] \<longleftrightarrow> err = [] \<and> rc = 0))
     \<and> (\<forall>e. r = Inl e \<longrightarrow> (rtype = ''csv'' \<and> err = [] \<and> rc = 0)
          \<or> (e = UnicodeDecodeError err \<and> \<not> utf8_valid err)
          \<or> ((\<exists>s. e = UnicodeEncodeError s) \<and> utf8_valid err \<and> \<not> py_ascii err \<and> \<not> (err = [] \<and> rc = 0)))"
proof (cases "utf8_valid err")
  case False
  with assms show ?thesis
    by (intro exI [of _ "[]"]) (auto simp: report_else_def bindp_def raise_def)
next
  case valid: True
  show ?thesis
  proof (cases "err = [] \<and> rc = 0")
    case True
    show ?thesis
    proof (cases "rtype = ''csv''")
      case True
      let ?rep = "csv_report_name c"
      let ?w1 = "w\<lparr>files := (files w)(?rep \<mapsto> so)\<rparr>"
      obtain m w2 where m: "mapping_of_kernel sh c ?rep ''custom'' out ?w1 = (m, w2)"
        by (cases "mapping_of_kernel sh c ?rep ''custom'' out ?w1") auto
      from mapping_of_kernel_trace [OF m] obtain kres where
        t: "trace w2 = trace ?w1 @ [(kernel_name_cmd c ?rep ''custom'' out, kres)]"
        by blast
      have "r = (case m of Inl e \<Rightarrow> Inl e | Inr _ \<Rightarrow> Inr err)" "w' = w2"
        using assms m \<open>err = [] \<and> rc = 0\<close> True valid
        by (auto simp: report_else_def report_name_def Let_def bindp_def seqp_def write_file_def ret_def
            split: sum.splits)
      with t True \<open>err = [] \<and> rc = 0\<close> show ?thesis
        by (intro exI [of _ "[(kernel_name_cmd c ?rep ''custom'' out, kres)]"]) (auto split: sum.splits)
    next
      case False
      with assms valid \<open>err = [] \<and> rc = 0\<close> show ?thesis
        by (intro exI [of _ "[]"]) (auto simp: report_else_def seqp_def bindp_def write_file_def ret_def)
    qed
  next
    case False
    with assms valid show ?thesis
      by (intro exI [of _ "[]"])
         (auto simp: report_else_def Let_def log_unicode_def log_def append_file_def ret_def raise_def seqp_def bindp_def split: if_splits)
  qed
qed

lemma runs_of_append [simp]: "runs_of cmd (xs @ ys) = runs_of cmd xs @ runs_of cmd ys"
  by (simp add: runs_of_def)

lemma runs_of_Cons [simp]:
  "runs_of cmd ((c', x) # xs) = (if c' = cmd then x # runs_of cmd xs else runs_of cmd xs)"
  by (simp add: runs_of_def)

lemma runs_of_Pair [simp]: "runs_of cmd (map (Pair cmd) rs) = rs"
  by (induction rs) (simp_all add: runs_of_def)

lemma runs_of_none: "\<forall>x \<in> set tr. fst x \<noteq> cmd \<Longrightarrow> runs_of cmd tr = []"
  by (induction tr) (auto simp: runs_of_def)

lemma new_trace_eq: "trace w' = trace w @ tr \<Longrightarrow> new_trace w w' = tr"
  by (simp add: new_trace_def)

lemma process_report_type_runs:
  assumes run: "process_report_type sh c rtype w = (r, w')"
  shows "let rs = runs_of (tool_args c rtype) (new_trace w w') in
     (rs \<noteq> [] \<longrightarrow> length rs \<le> 2
        \<and> (length rs = 2 \<longleftrightarrow> stderr_of (hd rs) \<noteq> [] \<and> utf8_valid (stderr_of (hd rs))))
     \<and> (\<forall>v. r = Inr v \<longrightarrow> (v = [] \<longleftrightarrow> rs \<noteq> [] \<and> clean_run (last rs)))
     \<and> (\<forall>e. r = Inl e \<longrightarrow> rs \<noteq> []
          \<and> ((rtype \<noteq> ''html'' \<and> clean_run (last rs))
           \<or> (e = UnicodeDecodeError (stderr_of (last rs)) \<and> \<not> utf8_valid (stderr_of (last rs)))
           \<or> ((\<exists>s. e = UnicodeEncodeError s) \<and> \<not> clean_run (last rs)
              \<and> utf8_valid (stderr_of (last rs)) \<and> \<not> py_ascii (stderr_of (last rs)))))"
proof -
  let ?args = "tool_args c rtype"
  let ?rt = "if rtype \<noteq> ''html'' then ''csv'' else rtype"
  let ?w0 = "appended w (logfile c) (''Args: '' @ ?args)"
  have unfold: "process_report_type sh c rtype w
      = try_else (report_try sh c ?args (faux_path c)) (report_except c) (report_else sh c ?rt) ?w0"
    by (simp add: process_report_type_def Let_def)
  obtain q w1 where q: "report_try sh c ?args (faux_path c) ?w0 = (q, w1)"
    by (cases "report_try sh c ?args (faux_path c) ?w0") auto
  from report_try_trace [OF q] obtain kres rs where
    t1: "trace w1 = trace ?w0 @ (kernel_name_cmd c (faux_path c) '' '' '' '', kres) # map (Pair ?args) rs"
    and len: "rs \<noteq> [] \<longrightarrow> length rs \<le> 2
        \<and> (length rs = 2 \<longleftrightarrow> stderr_of (hd rs) \<noteq> [] \<and> utf8_valid (stderr_of (hd rs)))"
    and qv: "case q of Inl e \<Rightarrow> rs = [] \<or> \<not> clean_run (last rs)
          | Inr (out, so, err, rc) \<Rightarrow> rs \<noteq> [] \<and> last rs = Inr (so, err, rc)"
    by blast
  show ?thesis
  proof (cases q)
    case (Inl e)
    with run unfold q have "r = Inr (''Error in executing cve-check-tool'' @ exc_info e)"
      and "trace w' = trace w1"
      by (auto simp: try_else_def report_except_eq)
    moreover from this(2) t1 have "runs_of ?args (new_trace w w') = rs"
      by (simp add: new_trace_eq)
    ultimately show ?thesis
      using len qv Inl by (simp add: Let_def)
  next
    case (Inr x)
    then obtain out so err rc where x: "q = Inr (out, so, err, rc)"
      by (cases x) auto
    with run unfold q have e: "report_else sh c ?rt (out, so, err, rc) w1 = (r, w')"
      by (simp add: try_else_def)
    from report_else_trace [OF e, of c rtype] obtain tail where
      t2: "trace w' = trace w1 @ tail" and nt: "\<forall>x \<in> set tail. fst x \<noteq> ?args"
      and rv: "\<forall>v. r = Inr v \<longrightarrow> (v = [] \<longleftrightarrow> err = [] \<and> rc = 0)"
      and re: "\<forall>e. r = Inl e \<longrightarrow> (?rt = ''csv'' \<and> err = [] \<and> rc = 0)
          \<or> (e = UnicodeDecodeError err \<and> \<not> utf8_valid err)
          \<or> ((\<exists>s. e = UnicodeEncodeError s) \<and> utf8_valid err \<and> \<not> py_ascii err \<and> \<not> (err = [] \<and> rc = 0))"
      by blast
    from t1 t2 nt have rs: "runs_of ?args (new_trace w w') = rs"
      by (simp add: new_trace_eq runs_of_none)
    from qv x have ne: "rs \<noteq> []" and last: "last rs = Inr (so, err, rc)"
      by auto
    have cl: "clean_run (last rs) \<longleftrightarrow> err = [] \<and> rc = 0" and se: "stderr_of (last rs) = err"
      by (simp_all add: last clean_run_def stderr_of_def)
    show ?thesis
      using rs len ne cl se rv re by (auto simp: Let_def split: if_splits)
  qed
qed

lemma popen_static [simp]:
  "popen (static_shell f) cmd w = (Inr (f cmd), w\<lparr>trace := trace w @ [(cmd, Inr (f cmd))]\<rparr>)"
  by (simp add: popen_def static_shell_def outcome_of_def split: prod.splits)

lemma files_but_refl [simp]: "files_but p w w"
  by (simp add: files_but_def)

lemma files_but_trans: "files_but p w1 w2 \<Longrightarrow> files_but p w2 w3 \<Longrightarrow> files_but p w1 w3"
  by (simp add: files_but_def)

lemma files_but_appended [simp]: "files_but p w (appended w' p s) \<longleftrightarrow> files_but p w w'"
  by (simp add: files_but_def)

lemma files_but_trace [simp]: "files_but p w (w'\<lparr>trace := t\<rparr>) \<longleftrightarrow> files_but p w w'"
  by (simp add: files_but_def)

lemma mapping_of_kernel_static:
  "\<exists>w'. mapping_of_kernel (static_shell f) c a m n w = (Inr (fst (f (kernel_name_cmd c a m n))), w')
     \<and> files_but (logfile c) w w'"
  by (simp add: mapping_of_kernel_def Let_def bindp_def ret_def split: prod.splits)

lemma run_tool_static:
  "\<exists>w'. run_tool (static_shell f) c args w
       = (if utf8_valid (fst (snd (f args))) then Inr (f args)
          else Inl (UnicodeDecodeError (fst (snd (f args)))), w')
     \<and> files_but (logfile c) w w'"
  by (cases "f args") (simp add: run_tool_def bindp_def ret_def py_decode_utf8_def raise_def)

lemma report_try_static:
  "\<exists>w'. report_try (static_shell f) c args a w
       = (if utf8_valid (fst (snd (f args))) then Inr (fst (f (kernel_name_cmd c a '' '' '' '')), f args)
          else Inl (UnicodeDecodeError (fst (snd (f args)))), w')
     \<and> files_but (logfile c) w w'"
proof -
  obtain w1 where 1: "mapping_of_kernel (static_shell f) c a '' '' '' '' w
      = (Inr (fst (f (kernel_name_cmd c a '' '' '' ''))), w1)" "files_but (logfile c) w w1"
    using mapping_of_kernel_static by blast
  obtain w2 where 2: "run_tool (static_shell f) c args w1
      = (if utf8_valid (fst (snd (f args))) then Inr (f args)
         else Inl (UnicodeDecodeError (fst (snd (f args)))), w2)" "files_but (logfile c) w1 w2"
    using run_tool_static by blast
  from 1 2 show ?thesis
    by (auto simp: report_try_def bindp_def ret_def intro: files_but_trans)
qed

lemma tool_verdict_Nil: "tool_verdict r = Inr [] \<longleftrightarrow> fst (snd r) = [] \<and> snd (snd r) = 0"
  by (simp add: tool_verdict_def split: prod.splits)

lemma report_name_csv [simp]: "report_name c (if rtype \<noteq> ''html'' then ''csv'' else rtype) = report_name c rtype"
  by (simp add: report_name_def)

lemma report_else_fail_unicode:
  "utf8_valid err \<Longrightarrow> \<not> (err = [] \<and> rc = 0) \<Longrightarrow> \<not> py_ascii err \<Longrightarrow>
   report_else sh c rt (k, (so, err, rc)) w = (tool_verdict (so, err, rc), w)"
  by (cases "err = []") (simp_all add: report_else_def Let_def tool_verdict_def log_unicode_def raise_def seqp_def bindp_def)

lemma report_else_fail_ascii:
  "utf8_valid err \<Longrightarrow> \<not> (err = [] \<and> rc = 0) \<Longrightarrow> py_ascii err \<Longrightarrow>
   report_else sh c rt (k, (so, err, rc)) w = (tool_verdict (so, err, rc),
     appended w (logfile c) (''error: '' @ err @ ''\<newline>cve-check-tool terminated with exit code '' @ py_str_int rc))"
  by (cases "err = []")
     (simp_all add: report_else_def Let_def tool_verdict_def log_unicode_def log_def append_file_eq seqp_def bindp_def ret_def)

lemma report_else_static:
  assumes "rt = ''csv'' \<or> rt = ''html''" and "utf8_valid (fst (snd r))"
  shows "\<exists>w'. report_else (static_shell f) c rt (k, r) w = (tool_verdict r, w')
     \<and> (if tool_verdict r = Inr [] then files_but (logfile c) (w\<lparr>files := (files w)(report_name c rt \<mapsto> fst r)\<rparr>) w'
        else files_but (logfile c) w w')"
proof -
  obtain so err rc where r: "r = (so, err, rc)" by (cases r) auto
  with assms(2) have v: "utf8_valid err" by simp
  show ?thesis
  proof (cases "err = [] \<and> rc = 0")
    case e: True
    let ?w1 = "w\<lparr>files := (files w)(report_name c rt \<mapsto> so)\<rparr>"
    show ?thesis
    proof (cases "rt = ''csv''")
      case True
      obtain w2 where "mapping_of_kernel (static_shell f) c (csv_report_name c) ''custom'' k ?w1
          = (Inr (fst (f (kernel_name_cmd c (csv_report_name c) ''custom'' k))), w2)"
          "files_but (logfile c) ?w1 w2"
        using mapping_of_kernel_static by blast
      with True e r v show ?thesis
        by (simp add: report_else_def Let_def seqp_def bindp_def ret_def write_file_def report_name_def
            tool_verdict_def)
    next
      case False
      with assms(1) e r v show ?thesis
        by (simp add: report_else_def Let_def seqp_def bindp_def ret_def write_file_def report_name_def
            tool_verdict_def)
    qed
  next
    case False
    with r v show ?thesis
      by (cases "py_ascii err"; cases "err = []")
         (simp_all add: report_else_fail_unicode report_else_fail_ascii tool_verdict_def)
  qed
qed

lemma files_but_upd:
  "files_but p w w1 \<Longrightarrow> files_but p (w1\<lparr>files := (files w1)(q \<mapsto> s)\<rparr>) w2
   \<Longrightarrow> files_but p (w\<lparr>files := (files w)(q \<mapsto> s)\<rparr>) w2"
  by (simp add: files_but_def)

lemma process_report_type_static:
  "\<exists>w'. process_report_type (static_shell f) c rtype w = (tool_verdict (f (tool_args c rtype)), w')
     \<and> (if tool_verdict (f (tool_args c rtype)) = Inr []
        then files_but (logfile c) (w\<lparr>files := (files w)(report_name c rtype \<mapsto> fst (f (tool_args c rtype)))\<rparr>) w'
        else files_but (logfile c) w w')"
proof -
  let ?args = "tool_args c rtype"
  let ?rt = "if rtype \<noteq> ''html'' then ''csv'' else rtype"
  let ?w0 = "appended w (logfile c) (''Args: '' @ ?args)"
  obtain w1 where 1: "report_try (static_shell f) c ?args (faux_path c) ?w0
      = (if utf8_valid (fst (snd (f ?args))) then Inr (fst (f (kernel_name_cmd c (faux_path c) '' '' '' '')), f ?args)
         else Inl (UnicodeDecodeError (fst (snd (f ?args)))), w1)"
      "files_but (logfile c) ?w0 w1"
    using report_try_static by blast
  have 3: "files_but (logfile c) w w1"
    using 1(2) files_but_trans [of "logfile c" w ?w0 w1] by simp
  show ?thesis
  proof (cases "utf8_valid (fst (snd (f ?args)))")
    case False
    with 1(1) 3 show ?thesis
      by (cases "f ?args")
         (simp add: process_report_type_def Let_def try_else_def report_except_eq tool_verdict_def)
  next
    case True
    have "?rt = ''csv'' \<or> ?rt = ''html''" by simp
    with True obtain w2 where 2: "report_else (static_shell f) c ?rt (fst (f (kernel_name_cmd c (faux_path c) '' '' '' '')), f ?args) w1
        = (tool_verdict (f ?args), w2)"
        "if tool_verdict (f ?args) = Inr []
         then files_but (logfile c) (w1\<lparr>files := (files w1)(report_name c ?rt \<mapsto> fst (f ?args))\<rparr>) w2
         else files_but (logfile c) w1 w2"
      using report_else_static by blast
    show ?thesis
      using True 1(1) 2 3 files_but_upd [OF 3] files_but_trans [OF 3]
      by (simp add: process_report_type_def Let_def try_else_def report_name_def split: if_splits)
  qed
qed

lemma process_report_static:
  assumes "isfile (faux_path c) w" and "initialized c"
    and "distinct [faux_path c, logfile c, csv_report_name c, html_report_name c]"
    and "tool_verdict (f (tool_args c ''csv'')) = Inr v1" and "tool_verdict (f (tool_args c ''html'')) = Inr v2"
  shows "\<exists>w3. process_report (static_shell f) c w = write_report_xml c v2 w3
     \<and> files w3 (faux_path c) = None
     \<and> files w3 (csv_report_name c) = (if v1 = [] then Some (fst (f (tool_args c ''csv''))) else files w (csv_report_name c))"
proof -
  let ?w0 = "appended w (logfile c) ''Creating report in CSV format.\<newline>''"
  obtain w1 where 1: "process_report_type (static_shell f) c ''csv'' ?w0 = (Inr v1, w1)"
      "if v1 = []
       then files_but (logfile c) (?w0\<lparr>files := (files ?w0)(report_name c ''csv'' \<mapsto> fst (f (tool_args c ''csv'')))\<rparr>) w1
       else files_but (logfile c) ?w0 w1"
    using process_report_type_static [of f c "''csv''" ?w0] assms(4) by auto
  let ?w1 = "appended w1 (logfile c) ''Creating report in HTML format.\<newline>''"
  obtain w2 where 2: "process_report_type (static_shell f) c ''html'' ?w1 = (Inr v2, w2)"
      "if v2 = []
       then files_but (logfile c) (?w1\<lparr>files := (files ?w1)(report_name c ''html'' \<mapsto> fst (f (tool_args c ''html'')))\<rparr>) w2
       else files_but (logfile c) ?w1 w2"
    using process_report_type_static [of f c "''html''" ?w1] assms(5) by auto
  have f2: "files w2 q = files w1 q" if "q \<notin> {logfile c, html_report_name c}" for q
    using 2(2) that by (auto simp: files_but_def report_name_def split: if_splits)
  have f1: "files w1 q = (if q = csv_report_name c \<and> v1 = []
      then Some (fst (f (tool_args c ''csv''))) else files w q)" if "q \<noteq> logfile c" for q
    using 1(2) that by (auto simp: files_but_def report_name_def split: if_splits)
  have faux: "files w2 (faux_path c) = files w (faux_path c)"
    using assms(3) f1 f2 by simp
  let ?w3 = "appended (w2\<lparr>files := (files w2)(faux_path c := None)\<rparr>) (logfile c) ''Creating report in XML format.\<newline>''"
  have "process_report (static_shell f) c w = write_report_xml c v2 ?w3"
    using assms(1,2) faux 1(1) 2(1)
    by (simp add: process_report_def bindp_Inr seqp_remove_file isfile_def)
  moreover have "csv_report_name c \<noteq> logfile c" "csv_report_name c \<noteq> faux_path c"
      "csv_report_name c \<noteq> html_report_name c"
    using assms(3) by auto
  then have "files ?w3 (csv_report_name c) = (if v1 = []
           then Some (fst (f (tool_args c ''csv''))) else files w (csv_report_name c))"
    using f1 f2 by simp
  ultimately show ?thesis
    using assms(3) by (intro exI [of _ ?w3]) simp
qed

lemma tool_not_kernel_name_cmd [simp]: "tool_args c' r \<noteq> kernel_name_cmd c f m n"
  using kernel_name_cmd_not_tool by metis

lemma demo_html_run:
  "fst (process_report_type demo_shell demo_checker ''html'' demo_world) = Inr []"
  by code_simp

lemma demo_report_facts:
  "isfile (faux_path demo_checker) demo_batch_world \<and> initialized demo_checker
   \<and> distinct [faux_path demo_checker, logfile demo_checker, csv_report_name demo_checker, html_report_name demo_checker]
   \<and> tool_verdict (demo_tool_fails (tool_args demo_checker ''csv'')) = Inr ''fetch failed\<newline>cve-check-tool terminated with exit code 1''
   \<and> tool_verdict (demo_tool_fails (tool_args demo_checker ''html'')) = Inr []
   \<and> tool_verdict (demo_tool_ok (tool_args demo_checker ''csv'')) = Inr []
   \<and> tool_verdict (demo_tool_ok (tool_args demo_checker ''html'')) = Inr []
   \<and> files demo_batch_world (csv_report_name demo_checker) = None
   \<and> tool_verdict (demo_tool_unicode (tool_args demo_checker ''html''))
       = Inl (UnicodeEncodeError (''error: r'' @ [CHR 0xC3, CHR 0xA9] @ ''seau\<newline>cve-check-tool terminated with exit code 1''))"
  by code_simp

text \<open>C10: \<open>process_report_type\<close> returns the empty string exactly when the tool ran and its last run was clean (no standard error, exit code 0); any other string it returns is an error report. This holds for every shell.\<close>

theorem process_report_type_verdict:
  assumes "process_report_type sh c rtype w = (Inr v, w')"
  shows "v = [] \<longleftrightarrow> runs_of (tool_args c rtype) (new_trace w w') \<noteq> []
           \<and> clean_run (last (runs_of (tool_args c rtype) (new_trace w w')))"
  using process_report_type_runs [OF assms] by (simp add: Let_def)

theorem process_report_type_verdict_witness:
  "process_report_type demo_shell demo_checker ''html'' demo_world
     = (Inr [], snd (process_report_type demo_shell demo_checker ''html'' demo_world))
   \<and> ([] = [] \<longleftrightarrow> runs_of (tool_args demo_checker ''html'')
          (new_trace demo_world (snd (process_report_type demo_shell demo_checker ''html'' demo_world))) \<noteq> []
        \<and> clean_run (last (runs_of (tool_args demo_checker ''html'')
          (new_trace demo_world (snd (process_report_type demo_shell demo_checker ''html'' demo_world))))))"
proof -
  have h: "process_report_type demo_shell demo_checker ''html'' demo_world
     = (Inr [], snd (process_report_type demo_shell demo_checker ''html'' demo_world))"
    using demo_html_run by (metis prod.collapse)
  show ?thesis using h process_report_type_verdict [OF h] by blast
qed

text \<open>C11: \<open>process_report_type\<close> runs the tool at most twice, and twice exactly when the first run wrote to standard error that decodes as UTF-8: the retry is blind to the exit code and is not repeated, and undecodable standard error fails the test of line 183 inside the \<open>try\<close>, so no retry follows.\<close>

theorem process_report_type_retry:
  assumes "process_report_type sh c rtype w = (r, w')"
  shows "length (runs_of (tool_args c rtype) (new_trace w w')) \<le> 2
     \<and> (length (runs_of (tool_args c rtype) (new_trace w w')) = 2
          \<longleftrightarrow> runs_of (tool_args c rtype) (new_trace w w') \<noteq> []
            \<and> stderr_of (hd (runs_of (tool_args c rtype) (new_trace w w'))) \<noteq> []
            \<and> utf8_valid (stderr_of (hd (runs_of (tool_args c rtype) (new_trace w w')))))"
  using process_report_type_runs [OF assms] by (cases "runs_of (tool_args c rtype) (new_trace w w')") (auto simp: Let_def)

theorem process_report_type_retry_witness:
  "process_report_type demo_shell demo_checker ''html'' demo_world
     = (fst (process_report_type demo_shell demo_checker ''html'' demo_world),
        snd (process_report_type demo_shell demo_checker ''html'' demo_world))
   \<and> length (runs_of (tool_args demo_checker ''html'')
        (new_trace demo_world (snd (process_report_type demo_shell demo_checker ''html'' demo_world)))) \<le> 2
   \<and> (length (runs_of (tool_args demo_checker ''html'')
        (new_trace demo_world (snd (process_report_type demo_shell demo_checker ''html'' demo_world)))) = 2
      \<longleftrightarrow> runs_of (tool_args demo_checker ''html'')
        (new_trace demo_world (snd (process_report_type demo_shell demo_checker ''html'' demo_world))) \<noteq> []
       \<and> stderr_of (hd (runs_of (tool_args demo_checker ''html'')
        (new_trace demo_world (snd (process_report_type demo_shell demo_checker ''html'' demo_world))))) \<noteq> []
       \<and> utf8_valid (stderr_of (hd (runs_of (tool_args demo_checker ''html'')
        (new_trace demo_world (snd (process_report_type demo_shell demo_checker ''html'' demo_world)))))))"
proof -
  have h: "process_report_type demo_shell demo_checker ''html'' demo_world
     = (fst (process_report_type demo_shell demo_checker ''html'' demo_world),
        snd (process_report_type demo_shell demo_checker ''html'' demo_world))"
    by simp
  show ?thesis using h process_report_type_retry [OF h] by blast
qed

lemma demo_retry_twice:
  "length (runs_of (tool_args demo_checker ''html'')
     (new_trace demo_world (snd (process_report_type demo_shell demo_checker ''html'' demo_world)))) = 2"
  by code_simp

text \<open>C18: \<open>process_report_type\<close> raises in exactly three situations, all in code outside the \<open>try\<close>: after a clean CSV run, when the kernel-name script on the CSV report fails (line 206); when the standard error of the last run is not UTF-8 (the decode of line 196, reached only after a retry, as the first decode is inside the \<open>try\<close>); and when a failed run's standard error decodes to text that is not ASCII, which the log write of line 211 cannot encode. So the HTML run raises only in the two Unicode cases.\<close>

theorem process_report_type_raises:
  assumes "process_report_type sh c rtype w = (Inl e, w')"
  shows "let rs = runs_of (tool_args c rtype) (new_trace w w') in rs \<noteq> []
     \<and> ((rtype \<noteq> ''html'' \<and> clean_run (last rs))
       \<or> (e = UnicodeDecodeError (stderr_of (last rs)) \<and> \<not> utf8_valid (stderr_of (last rs)))
       \<or> ((\<exists>s. e = UnicodeEncodeError s) \<and> \<not> clean_run (last rs)
          \<and> utf8_valid (stderr_of (last rs)) \<and> \<not> py_ascii (stderr_of (last rs))))"
  using process_report_type_runs [OF assms] by (simp add: Let_def)

theorem process_report_type_raises_witness:
  "process_report_type (static_shell demo_tool_unicode) demo_checker ''html'' demo_world
     = (Inl (UnicodeEncodeError (''error: r'' @ [CHR 0xC3, CHR 0xA9] @ ''seau\<newline>cve-check-tool terminated with exit code 1'')),
        snd (process_report_type (static_shell demo_tool_unicode) demo_checker ''html'' demo_world))
   \<and> (let rs = runs_of (tool_args demo_checker ''html'')
          (new_trace demo_world (snd (process_report_type (static_shell demo_tool_unicode) demo_checker ''html'' demo_world)))
      in rs \<noteq> []
     \<and> ((''html'' \<noteq> ''html'' \<and> clean_run (last rs))
       \<or> (UnicodeEncodeError (''error: r'' @ [CHR 0xC3, CHR 0xA9] @ ''seau\<newline>cve-check-tool terminated with exit code 1'') = UnicodeDecodeError (stderr_of (last rs)) \<and> \<not> utf8_valid (stderr_of (last rs)))
       \<or> ((\<exists>s. UnicodeEncodeError (''error: r'' @ [CHR 0xC3, CHR 0xA9] @ ''seau\<newline>cve-check-tool terminated with exit code 1'') = UnicodeEncodeError s) \<and> \<not> clean_run (last rs)
          \<and> utf8_valid (stderr_of (last rs)) \<and> \<not> py_ascii (stderr_of (last rs)))))"
proof -
  obtain w' where "process_report_type (static_shell demo_tool_unicode) demo_checker ''html'' demo_world
      = (tool_verdict (demo_tool_unicode (tool_args demo_checker ''html'')), w')"
    using process_report_type_static by blast
  then have h: "process_report_type (static_shell demo_tool_unicode) demo_checker ''html'' demo_world
     = (Inl (UnicodeEncodeError (''error: r'' @ [CHR 0xC3, CHR 0xA9] @ ''seau\<newline>cve-check-tool terminated with exit code 1'')),
        snd (process_report_type (static_shell demo_tool_unicode) demo_checker ''html'' demo_world))"
    using demo_report_facts by simp
  show ?thesis using h process_report_type_raises [OF h] by blast
qed

text \<open>C23: Without a faux file (no package was recorded) \<open>process_report\<close> does nothing.\<close>

theorem process_report_no_batch:
  "\<not> isfile (faux_path c) w \<Longrightarrow> process_report sh c w = (Inr (), w)"
  by (simp add: process_report_def ret_def)

theorem process_report_no_batch_witness:
  "\<not> isfile (faux_path demo_checker) demo_world
   \<and> process_report demo_shell demo_checker demo_world = (Inr (), demo_world)"
proof -
  have h: "\<not> isfile (faux_path demo_checker) demo_world"
    by (simp add: isfile_def demo_world_def)
  show ?thesis using h process_report_no_batch [OF h] by blast
qed

text \<open>C9: With a tool whose outcome depends on its command line only, \<open>process_report_type\<close> returns or raises the verdict of that outcome (the \<open>except\<close> text when its standard error is not UTF-8, empty on a clean run, the standard error and the exit code on a failure with ASCII standard error, \<open>UnicodeEncodeError\<close> on a failure with other text), stores the standard output as the CSV or HTML report exactly on a clean run, and leaves every other file but the log as it was.\<close>

theorem process_report_type_static_run:
  "fst (process_report_type (static_shell f) c rtype w) = tool_verdict (f (tool_args c rtype))
   \<and> (q \<noteq> logfile c \<longrightarrow> files (snd (process_report_type (static_shell f) c rtype w)) q
        = (if q = report_name c rtype \<and> tool_verdict (f (tool_args c rtype)) = Inr []
           then Some (fst (f (tool_args c rtype))) else files w q))"
proof -
  obtain w' where "process_report_type (static_shell f) c rtype w = (tool_verdict (f (tool_args c rtype)), w')"
      "if tool_verdict (f (tool_args c rtype)) = Inr []
       then files_but (logfile c) (w\<lparr>files := (files w)(report_name c rtype \<mapsto> fst (f (tool_args c rtype)))\<rparr>) w'
       else files_but (logfile c) w w'"
    using process_report_type_static by blast
  then show ?thesis
    by (auto simp: files_but_def split: if_splits)
qed

theorem process_report_type_static_run_witness:
  "csv_report_name demo_checker \<noteq> logfile demo_checker
   \<and> fst (process_report_type (static_shell demo_tool_fails) demo_checker ''csv'' demo_batch_world)
     = tool_verdict (demo_tool_fails (tool_args demo_checker ''csv''))
   \<and> files (snd (process_report_type (static_shell demo_tool_fails) demo_checker ''csv'' demo_batch_world))
        (csv_report_name demo_checker)
      = (if csv_report_name demo_checker = report_name demo_checker ''csv''
            \<and> tool_verdict (demo_tool_fails (tool_args demo_checker ''csv'')) = Inr []
         then Some (fst (demo_tool_fails (tool_args demo_checker ''csv'')))
         else files demo_batch_world (csv_report_name demo_checker))"
proof -
  have h: "csv_report_name demo_checker \<noteq> logfile demo_checker"
    by (simp add: demo_checker_def demo_config_def checker_of_config_def)
  show ?thesis
    using h process_report_type_static_run [of demo_tool_fails demo_checker "''csv''" demo_batch_world
        "csv_report_name demo_checker"] by blast
qed

text \<open>C4: \<open>process_report\<close> overwrites the CSV run's verdict with the HTML run's (lines 105 and 109), so when the CSV run fails with an error text and the HTML run succeeds the XML writer is told that all went well: with no CSV report on disk the plugin dies with \<open>IOError\<close>, and with a stale CSV report from an earlier build it writes an XML report of that stale content and no error.\<close>

theorem process_report_csv_verdict_ignored:
  assumes "isfile (faux_path c) w" and "initialized c"
    and "distinct [faux_path c, logfile c, csv_report_name c, html_report_name c]"
    and "tool_verdict (f (tool_args c ''csv'')) = Inr v" and "v \<noteq> []"
    and "tool_verdict (f (tool_args c ''html'')) = Inr []"
  shows "(files w (csv_report_name c) = None \<longrightarrow>
           fst (process_report (static_shell f) c w) = Inl (IOError (csv_report_name c)))
    \<and> (\<forall>s. files w (csv_report_name c) = Some s \<longrightarrow>
           fst (process_report (static_shell f) c w) = Inr ()
         \<and> xml_out (snd (process_report (static_shell f) c w)) (csv_report_name c @ ''.xml'')
             = Some (csv_xml s))"
proof -
  obtain w3 where e: "process_report (static_shell f) c w = write_report_xml c [] w3"
      and csv: "files w3 (csv_report_name c) = files w (csv_report_name c)"
    using process_report_static [OF assms(1-3) assms(4) assms(6)] assms(5) by auto
  show ?thesis
  proof (cases "files w (csv_report_name c)")
    case None
    with e csv show ?thesis by (simp add: write_report_xml_no_csv)
  next
    case (Some s)
    with e csv show ?thesis by (simp add: write_report_xml_Nil)
  qed
qed

theorem process_report_csv_verdict_ignored_witness:
  "isfile (faux_path demo_checker) demo_batch_world \<and> initialized demo_checker
   \<and> distinct [faux_path demo_checker, logfile demo_checker, csv_report_name demo_checker, html_report_name demo_checker]
   \<and> tool_verdict (demo_tool_fails (tool_args demo_checker ''csv'')) = Inr ''fetch failed\<newline>cve-check-tool terminated with exit code 1''
   \<and> ''fetch failed\<newline>cve-check-tool terminated with exit code 1'' \<noteq> []
   \<and> tool_verdict (demo_tool_fails (tool_args demo_checker ''html'')) = Inr []
   \<and> fst (process_report (static_shell demo_tool_fails) demo_checker demo_batch_world)
        = Inl (IOError (csv_report_name demo_checker))"
proof -
  have h: "isfile (faux_path demo_checker) demo_batch_world" "initialized demo_checker"
    "distinct [faux_path demo_checker, logfile demo_checker, csv_report_name demo_checker, html_report_name demo_checker]"
    "tool_verdict (demo_tool_fails (tool_args demo_checker ''csv'')) = Inr ''fetch failed\<newline>cve-check-tool terminated with exit code 1''"
    "''fetch failed\<newline>cve-check-tool terminated with exit code 1'' \<noteq> []"
    "tool_verdict (demo_tool_fails (tool_args demo_checker ''html'')) = Inr []"
    and n: "files demo_batch_world (csv_report_name demo_checker) = None"
    using demo_report_facts by blast+
  show ?thesis
    using h n process_report_csv_verdict_ignored [OF h] by blast
qed

text \<open>C3: With a tool whose outcome depends on its command line only and which changes no file (so \<open>set_linux_name.sh\<close> succeeds and leaves the reports alone), when both tool runs succeed \<open>process_report\<close> returns normally, removes the faux file and writes an XML report built from the CSV report the tool produced.\<close>

theorem process_report_success:
  assumes "isfile (faux_path c) w" and "initialized c"
    and "distinct [faux_path c, logfile c, csv_report_name c, html_report_name c]"
    and "tool_verdict (f (tool_args c ''csv'')) = Inr []"
    and "tool_verdict (f (tool_args c ''html'')) = Inr []"
  shows "fst (process_report (static_shell f) c w) = Inr ()
    \<and> \<not> isfile (faux_path c) (snd (process_report (static_shell f) c w))
    \<and> xml_out (snd (process_report (static_shell f) c w)) (csv_report_name c @ ''.xml'')
        = Some (csv_xml (fst (f (tool_args c ''csv''))))"
proof -
  obtain w3 where e: "process_report (static_shell f) c w = write_report_xml c [] w3"
      and faux: "files w3 (faux_path c) = None"
      and csv: "files w3 (csv_report_name c) = Some (fst (f (tool_args c ''csv'')))"
    using process_report_static [OF assms(1-3), of f] assms(4,5) by auto
  from e faux csv show ?thesis
    by (simp add: write_report_xml_Nil isfile_def)
qed

theorem process_report_success_witness:
  "isfile (faux_path demo_checker) demo_batch_world \<and> initialized demo_checker
   \<and> distinct [faux_path demo_checker, logfile demo_checker, csv_report_name demo_checker, html_report_name demo_checker]
   \<and> tool_verdict (demo_tool_ok (tool_args demo_checker ''csv'')) = Inr []
   \<and> tool_verdict (demo_tool_ok (tool_args demo_checker ''html'')) = Inr []
   \<and> fst (process_report (static_shell demo_tool_ok) demo_checker demo_batch_world) = Inr ()
   \<and> \<not> isfile (faux_path demo_checker) (snd (process_report (static_shell demo_tool_ok) demo_checker demo_batch_world))
   \<and> xml_out (snd (process_report (static_shell demo_tool_ok) demo_checker demo_batch_world))
        (csv_report_name demo_checker @ ''.xml'')
      = Some (csv_xml (fst (demo_tool_ok (tool_args demo_checker ''csv''))))"
proof -
  have h: "isfile (faux_path demo_checker) demo_batch_world" "initialized demo_checker"
    "distinct [faux_path demo_checker, logfile demo_checker, csv_report_name demo_checker, html_report_name demo_checker]"
    "tool_verdict (demo_tool_ok (tool_args demo_checker ''csv'')) = Inr []"
    "tool_verdict (demo_tool_ok (tool_args demo_checker ''html'')) = Inr []"
    using demo_report_facts by blast+
  show ?thesis
    using h process_report_success [OF h] by blast
qed

end
