(* ===== verification/Plugin.thy ===== *)
theory Plugin
  imports Report
begin

text \<open>
  The module level of \<open>ISA_cve_plugin.py\<close> (lines 31 and 258--277): the global
  \<open>CVEChecker\<close>, \<open>None\<close> until \<open>init\<close> builds the checker, and the four callbacks the
  host calls. A host session is a sequence of callbacks; \<open>reach\<close> is the set of
  module states and worlds a session that raised no exception can lead to, and
  \<open>plugin_run\<close> runs a session as the host does, stopping at the first exception.
  The lemmas are invariants of the reachable states, proved by rule induction.
\<close>

subsection \<open>Definitions\<close>

text \<open>The global \<open>CVEChecker\<close>: \<open>None\<close> before \<open>init\<close>.\<close>

type_synonym module_state = "checker option"

datatype call =
    Init isa_config
  | GetPluginName
  | ProcessPackage isa_pkg
  | ProcessReport

text \<open>\<open>init(ISA_config)\<close> (lines 261--263).\<close>

definition plugin_init :: "shell \<Rightarrow> isa_config \<Rightarrow> module_state py" where
  "plugin_init sh cfg = bindp (ISA_CVEChecker_init sh cfg) (\<lambda>c. ret (Some c))"

text \<open>\<open>getPluginName()\<close> (lines 266--267).\<close>

definition getPluginName :: string where
  "getPluginName = ''ISA_CVEChecker''"

text \<open>\<open>process_package(ISA_pkg)\<close> (lines 270--272): the method call on \<open>None\<close> raises
  \<open>AttributeError\<close>; the checker object is updated in place, which the model returns
  as the new global.\<close>

definition plugin_process_package :: "module_state \<Rightarrow> isa_pkg \<Rightarrow> module_state py" where
  "plugin_process_package st pkg =
     (case st of
        None \<Rightarrow> raise (AttributeError ''process_package'')
      | Some c \<Rightarrow> bindp (process_package c pkg) (\<lambda>c'. ret (Some c')))"

text \<open>\<open>process_report()\<close> (lines 275--277).\<close>

definition plugin_process_report :: "shell \<Rightarrow> module_state \<Rightarrow> module_state py" where
  "plugin_process_report sh st =
     (case st of
        None \<Rightarrow> raise (AttributeError ''process_report'')
      | Some c \<Rightarrow> bindp (process_report sh c) (\<lambda>_. ret st))"

text \<open>One callback from the host: its Python return value (\<open>None\<close>, or the name) and
  the new global.\<close>

fun plugin_step :: "shell \<Rightarrow> call \<Rightarrow> module_state \<Rightarrow> (string option \<times> module_state) py" where
  "plugin_step sh (Init cfg) st = bindp (plugin_init sh cfg) (\<lambda>st'. ret (None, st'))"
| "plugin_step sh GetPluginName st = ret (Some getPluginName, st)"
| "plugin_step sh (ProcessPackage pkg) st = bindp (plugin_process_package st pkg) (\<lambda>st'. ret (None, st'))"
| "plugin_step sh ProcessReport st = bindp (plugin_process_report sh st) (\<lambda>st'. ret (None, st'))"

text \<open>A host session, oldest call first; an exception ends it.\<close>

fun plugin_run :: "shell \<Rightarrow> module_state \<Rightarrow> call list \<Rightarrow> module_state py" where
  "plugin_run sh st [] = ret st"
| "plugin_run sh st (call # calls) = bindp (plugin_step sh call st) (\<lambda>(_, st'). plugin_run sh st' calls)"

text \<open>The states a session from world \<open>w0\<close> reaches, with the calls that led there.\<close>

inductive reach :: "shell \<Rightarrow> world \<Rightarrow> call list \<Rightarrow> module_state \<Rightarrow> world \<Rightarrow> bool"
  for sh :: shell and w0 :: world where
  reach_start: "reach sh w0 [] None w0"
| reach_step: "reach sh w0 cs st w \<Longrightarrow> plugin_step sh call st w = (Inr (v, st'), w')
    \<Longrightarrow> reach sh w0 (cs @ [call]) st' w'"

text \<open>The configuration of the last \<open>init\<close> of a session, and the packages passed
  to \<open>process_package\<close> since then.\<close>

fun last_init :: "call list \<Rightarrow> isa_config option" where
  "last_init [] = None"
| "last_init (call # calls) =
     (case last_init calls of
        Some cfg \<Rightarrow> Some cfg
      | None \<Rightarrow> (case call of Init cfg \<Rightarrow> Some cfg | _ \<Rightarrow> None))"

fun is_init :: "call \<Rightarrow> bool" where
  "is_init (Init cfg) = True"
| "is_init _ = False"

fun pkgs_of :: "call list \<Rightarrow> isa_pkg list" where
  "pkgs_of [] = []"
| "pkgs_of (ProcessPackage pkg # calls) = pkg # pkgs_of calls"
| "pkgs_of (_ # calls) = pkgs_of calls"

definition since_init :: "call list \<Rightarrow> call list" where
  "since_init cs = rev (takeWhile (\<lambda>c. \<not> is_init c) (rev cs))"

subsection \<open>Lemmas\<close>

inductive_cases reach_NilE: "reach sh w0 [] st w"
inductive_cases reach_snocE: "reach sh w0 (cs @ [call]) st w"

lemma last_init_snoc [simp]:
  "last_init (cs @ [call]) = (case call of Init cfg \<Rightarrow> Some cfg | _ \<Rightarrow> last_init cs)"
  by (induction cs) (auto split: call.splits option.splits)

lemma pkgs_of_append [simp]: "pkgs_of (xs @ ys) = pkgs_of xs @ pkgs_of ys"
  by (induction xs rule: pkgs_of.induct) auto

lemma since_init_snoc [simp]:
  "since_init (cs @ [call]) = (if is_init call then [] else since_init cs @ [call])"
  by (simp add: since_init_def)

lemma plugin_run_append:
  "plugin_run sh st (xs @ ys) = bindp (plugin_run sh st xs) (\<lambda>st'. plugin_run sh st' ys)"
  by (induction xs arbitrary: st) (simp_all add: bindp_assoc case_prod_unfold)

lemma ISA_CVEChecker_init_Inr:
  "ISA_CVEChecker_init sh cfg w = (r, w') \<Longrightarrow>
     \<exists>c. r = Inr c \<and> c\<lparr>initialized := False\<rparr> = checker_of_config cfg"
  by (cases "sh (map fst (trace w)) ''which cve-check-tool'' (files w)")
     (auto simp: ISA_CVEChecker_init_def Let_def popen_def try_else_def ret_def split: if_splits)

lemma process_package_Inr:
  "process_package c pkg w = (r, w') \<Longrightarrow>
     r = Inr (if initialized c \<and> \<not> pkg_args_ok pkg then c\<lparr>initialized := False\<rparr> else c)"
  by (cases "initialized c"; cases "pkg_args_ok pkg")
     (simp_all add: process_package_accept process_package_reject process_package_uninit)

lemma plugin_step_state:
  assumes "plugin_step sh call st w = (Inr (v, st'), w')"
  shows "case call of
           Init cfg \<Rightarrow> \<exists>c. st' = Some c \<and> c\<lparr>initialized := False\<rparr> = checker_of_config cfg
         | ProcessPackage pkg \<Rightarrow> \<exists>c. st = Some c
             \<and> st' = Some (if initialized c \<and> \<not> pkg_args_ok pkg then c\<lparr>initialized := False\<rparr> else c)
         | _ \<Rightarrow> st' = st"
proof (cases call)
  case (Init cfg)
  obtain r w1 where "ISA_CVEChecker_init sh cfg w = (r, w1)" by fastforce
  with assms Init ISA_CVEChecker_init_Inr [of sh cfg w r w1] show ?thesis
    by (auto simp: plugin_init_def bindp_def ret_def)
next
  case (ProcessPackage pkg)
  then obtain c where st: "st = Some c"
    using assms by (cases st) (auto simp: plugin_process_package_def bindp_def raise_def)
  obtain r w1 where "process_package c pkg w = (r, w1)" by fastforce
  with assms ProcessPackage st process_package_Inr [of c pkg w r w1] show ?thesis
    by (auto simp: plugin_process_package_def bindp_def ret_def)
next
  case ProcessReport
  with assms show ?thesis
    by (cases st) (auto simp: plugin_process_report_def bindp_def ret_def raise_def split: prod.splits sum.splits)
qed (use assms in \<open>simp add: ret_def\<close>)

lemma reach_None: "reach sh w0 cs st w \<Longrightarrow> last_init cs = None \<Longrightarrow> st = None"
proof (induction rule: reach.induct)
  case (reach_step cs st w call v st' w')
  then show ?case
    using plugin_step_state [OF reach_step.hyps(2)] by (cases call) auto
qed simp

lemma plugin_run_packages:
  "plugin_run sh (Some c) (map ProcessPackage pkgs) w
     = (case process_packages c pkgs w of (Inl e, w') \<Rightarrow> (Inl e, w') | (Inr c', w') \<Rightarrow> (Inr (Some c'), w'))"
  by (induction pkgs arbitrary: c w)
     (simp_all add: ret_def bindp_def plugin_process_package_def split: prod.splits sum.splits)

lemma process_packages_Inr:
  "process_packages c pkgs w = (r, w') \<Longrightarrow> \<exists>b. r = Inr (c\<lparr>initialized := b\<rparr>)"
proof (induction pkgs arbitrary: c w)
  case Nil
  then show ?case by (auto simp: ret_def intro: exI [of _ "initialized c"])
next
  case (Cons pkg pkgs)
  obtain r1 w1 where p: "process_package c pkg w = (r1, w1)" by fastforce
  let ?c1 = "c\<lparr>initialized := initialized c \<and> pkg_args_ok pkg\<rparr>"
  have r1: "r1 = Inr ?c1"
    using process_package_Inr [OF p] by auto
  from Cons.prems p r1 have "process_packages ?c1 pkgs w1 = (r, w')" by (simp add: bindp_def)
  from Cons.IH [OF this] show ?case by auto
qed

lemma init_static:
  assumes "fst (f ''which cve-check-tool'') \<noteq> []"
  shows "\<exists>w1. plugin_step (static_shell f) (Init cfg) None w
       = (Inr (None, Some ((checker_of_config cfg)\<lparr>initialized := True\<rparr>)), w1)
     \<and> files_but (logfile (checker_of_config cfg)) w w1"
  using assms
  by (cases "f ''which cve-check-tool''")
     (simp add: plugin_init_def ISA_CVEChecker_init_def Let_def try_else_def bindp_def ret_def)

lemma report_static:
  assumes "isfile (faux_path c) w" and "initialized c"
    and "distinct [faux_path c, logfile c, csv_report_name c, html_report_name c]"
    and "tool_verdict (f (tool_args c ''csv'')) = Inr []" and "tool_verdict (f (tool_args c ''html'')) = Inr []"
  shows "\<exists>w'. plugin_run (static_shell f) (Some c) [ProcessReport] w = (Inr (Some c), w')
     \<and> \<not> isfile (faux_path c) w'
     \<and> xml_out w' (csv_report_name c @ ''.xml'') = Some (csv_xml (fst (f (tool_args c ''csv''))))"
proof -
  obtain w3 where e: "process_report (static_shell f) c w = write_report_xml c [] w3"
      and faux: "files w3 (faux_path c) = None"
      and csv: "files w3 (csv_report_name c) = Some (fst (f (tool_args c ''csv'')))"
    using process_report_static [OF assms(1-5)] by auto
  from e faux csv show ?thesis
    by (simp add: plugin_process_report_def write_report_xml_Nil bindp_def ret_def isfile_def)
qed

lemma demo_init_step:
  "fst (plugin_step demo_shell (Init demo_config) None demo_world) = Inr (None, Some demo_checker)"
  by code_simp

lemma demo_reach_init:
  "reach demo_shell demo_world [Init demo_config] (Some demo_checker)
     (snd (plugin_step demo_shell (Init demo_config) None demo_world))"
  using reach_step [OF reach_start, where call = "Init demo_config"] demo_init_step
  by (metis append.left_neutral prod.collapse)

lemma demo_pkg_step:
  "fst (plugin_step demo_shell (ProcessPackage demo_pkg) (Some demo_checker)
     (snd (plugin_step demo_shell (Init demo_config) None demo_world))) = Inr (None, Some demo_checker)"
  by code_simp

lemma demo_reach_pkg:
  "reach demo_shell demo_world [Init demo_config, ProcessPackage demo_pkg] (Some demo_checker)
     (snd (plugin_step demo_shell (ProcessPackage demo_pkg) (Some demo_checker)
       (snd (plugin_step demo_shell (Init demo_config) None demo_world))))"
  using reach_step [OF demo_reach_init, where call = "ProcessPackage demo_pkg"] demo_pkg_step
  by (metis append_Cons append_Nil prod.collapse)

text \<open>C7: In every state a host session reaches, the global \<open>CVEChecker\<close> is \<open>None\<close> exactly when \<open>init\<close> was never called, and otherwise it is the checker built from the configuration of the last \<open>init\<close>, whatever happened since, up to its \<open>initialized\<close> flag: no callback changes the paths it works on.\<close>

theorem reach_checker_from_init:
  "reach sh w0 cs st w \<Longrightarrow>
     map_option (\<lambda>c. c\<lparr>initialized := False\<rparr>) st = map_option checker_of_config (last_init cs)"
proof (induction rule: reach.induct)
  case (reach_step cs st w call v st' w')
  then show ?case
    using plugin_step_state [OF reach_step.hyps(2)] by (cases call) auto
qed simp

theorem reach_checker_from_init_witness:
  "reach demo_shell demo_world [Init demo_config, ProcessPackage demo_pkg] (Some demo_checker)
     (snd (plugin_step demo_shell (ProcessPackage demo_pkg) (Some demo_checker)
       (snd (plugin_step demo_shell (Init demo_config) None demo_world))))
   \<and> map_option (\<lambda>c. c\<lparr>initialized := False\<rparr>) (Some demo_checker)
       = map_option checker_of_config (last_init [Init demo_config, ProcessPackage demo_pkg])"
  using demo_reach_pkg reach_checker_from_init [OF demo_reach_pkg] by blast

text \<open>C6: If the plugin is enabled in a reached state, every package passed to \<open>process_package\<close> since the last \<open>init\<close> had a name, a version and patch files: one incomplete package disables the plugin for the rest of the session.\<close>

theorem reach_enabled_accepts:
  assumes "reach sh w0 cs (Some c) w" and "initialized c"
  shows "list_all pkg_args_ok (pkgs_of (since_init cs))"
proof -
  have "\<forall>c. st = Some c \<longrightarrow> initialized c \<longrightarrow> list_all pkg_args_ok (pkgs_of (since_init cs))"
    if "reach sh w0 cs st w" for st
    using that
  proof (induction rule: reach.induct)
    case (reach_step cs st w call v st' w')
    note step = plugin_step_state [OF reach_step.hyps(2)]
    show ?case
    proof (cases call)
      case (ProcessPackage pkg)
      with step obtain c0 where "st = Some c0"
        and "st' = Some (if initialized c0 \<and> \<not> pkg_args_ok pkg then c0\<lparr>initialized := False\<rparr> else c0)"
        by auto
      with reach_step.IH ProcessPackage show ?thesis by auto
    qed (use reach_step.IH step in auto)
  qed simp
  with assms show ?thesis by blast
qed

theorem reach_enabled_accepts_witness:
  "reach demo_shell demo_world [Init demo_config, ProcessPackage demo_pkg] (Some demo_checker)
     (snd (plugin_step demo_shell (ProcessPackage demo_pkg) (Some demo_checker)
       (snd (plugin_step demo_shell (Init demo_config) None demo_world))))
   \<and> initialized demo_checker
   \<and> list_all pkg_args_ok (pkgs_of (since_init [Init demo_config, ProcessPackage demo_pkg]))"
proof -
  have i: "initialized demo_checker" by (simp add: demo_checker_def)
  show ?thesis using demo_reach_pkg i reach_enabled_accepts [OF demo_reach_pkg i] by blast
qed

text \<open>C19: A \<open>process_package\<close> callback before any \<open>init\<close> raises \<open>AttributeError\<close> on the global \<open>None\<close> and changes nothing.\<close>

theorem process_package_before_init:
  "reach sh w0 cs st w \<Longrightarrow> last_init cs = None \<Longrightarrow>
     plugin_step sh (ProcessPackage pkg) st w = (Inl (AttributeError ''process_package''), w)"
  by (drule (1) reach_None) (simp add: plugin_process_package_def raise_def bindp_def)

theorem process_package_before_init_witness:
  "reach demo_shell demo_world [] None demo_world \<and> last_init [] = None
   \<and> plugin_step demo_shell (ProcessPackage demo_pkg) None demo_world
       = (Inl (AttributeError ''process_package''), demo_world)"
proof -
  have h: "reach demo_shell demo_world [] None demo_world" "last_init [] = None"
    by (simp_all add: reach_start)
  show ?thesis using h process_package_before_init [OF h] by blast
qed

end
