(* ===== verification/Spec2Isabelle.thy ===== *)
theory Spec2Isabelle
  imports Plugin
begin

text \<open>
  \<^bold>\<open>A shallow embedding of the CVE checker plugin of ISA FW.\<close>

  The program is \<open>src/lib/isafw/isaplugins/ISA_cve_plugin.py\<close> (Python 2). The host
  (the ISA FW build hook) calls four module callbacks: \<open>init(config)\<close> builds the
  global \<open>CVEChecker\<close> object, \<open>process_package(pkg)\<close> is called once per built package
  and appends the package's line, and one line per alias, to a batch file in the
  tool's "faux" format, \<open>process_report()\<close> runs the external \<open>cve-check-tool\<close> on that
  file twice (CSV, then HTML), renames kernel packages with the side script
  \<open>set_linux_name.sh\<close>, deletes the batch file and converts the CSV report to a JUnit
  style XML test report; \<open>getPluginName()\<close> returns the plugin's name.

  \<^bold>\<open>Theories.\<close>
  \<^item> \<open>Prelude\<close>: the world the plugin acts on, a record of the file system
    (\<open>files\<close>), a ghost trace of the shell commands spawned with their outcomes
    (\<open>trace\<close>) and the XML documents written (\<open>xml_out\<close>); the exceptions; the
    state-and-exception monad \<open>'a py\<close> (\<open>ret\<close>, \<open>raise\<close>, \<open>bindp\<close>, \<open>seqp\<close>,
    \<open>try_else\<close> for \<open>try/except/else\<close>); \<open>open\<close>, \<open>os.remove\<close>,
    \<open>os.path.isfile\<close>, \<open>subprocess.Popen\<close> (\<open>popen\<close>) and the ElementTree
    operations. The shell is an oracle (\<open>shell\<close>): a command's outcome may depend on
    the commands run before, on the command line and on the files.
  \<^item> \<open>PyStr\<close>: the Python string builtins the plugin uses (\<open>partition\<close>,
    \<open>split\<close>, \<open>split(sep, n)\<close>, \<open>strip\<close>, \<open>str(int)\<close>, \<open>re.findall\<close> on digit runs,
    \<open>readlines\<close>) with their algebra (split/join round trips, partition laws).
  \<^item> \<open>Patches\<close>: \<open>process_patch_list\<close> (lines 239--255), the extraction of CVE ids
    from patch file names, as \<open>patch_info_of\<close> per patch and a loop with accumulator.
  \<^item> \<open>Checker\<close>: the \<open>ISA_CVEChecker\<close> record (\<open>checker\<close>), \<open>__init__\<close>
    (\<open>ISA_CVEChecker_init\<close>, lines 39--67), \<open>process_package\<close> (lines 69--97) and
    the host's loop over packages (\<open>process_packages\<close>); the faux format as the tool
    reads it (\<open>parse_faux\<close>), a contract from the spec.
  \<^item> \<open>XmlReport\<close>: \<open>write_report_xml\<close> (lines 118--156) and the CSV-line to
    test-case translation (\<open>csv_testcase\<close>, \<open>csv_rows\<close>).
  \<^item> \<open>Report\<close>: \<open>mapping_of_kernel\<close> (lines 214--237), \<open>process_report_type\<close>
    (lines 158--212) split into its command line (\<open>tool_args\<close>), its \<open>try\<close> block
    (\<open>report_try\<close>, \<open>run_tool\<close> with the retry), \<open>except\<close> (\<open>report_except\<close>) and
    \<open>else\<close> (\<open>report_else\<close>) blocks, and \<open>process_report\<close> (lines 99--116).
  \<^item> \<open>Plugin\<close>: the module state (\<open>CVEChecker\<close>, a \<open>checker option\<close>), the four
    callbacks (lines 258--277), a host session as a list of \<open>call\<close>s run by
    \<open>plugin_run\<close>, and the inductive relation \<open>reach\<close> of the states a session
    reaches.
  \<^item> this theory: a whole session across the components.

  \<^bold>\<open>What the lemmas show.\<close>
  Patches: the canonical patch name \<open>...CVE-yyyy-nnnn...\<close> yields
  \<open>" CVE-yyyy-nnnn"\<close>; the output is always a sequence of well-formed blocks made of
  characters of the names; names without \<open>cve\<close>/\<open>CVE\<close> are skipped. Checker: exact effect of \<open>process_package\<close> on each
  branch, the faux file reads back as the packages' records (a refinement of the
  format contract, with a round trip), the constructor's result.
  XmlReport: a test case fails exactly on lines \<open>name,version,CVE...\<close>; the success
  and error documents. Report: for every shell, the verdict is empty exactly after
  a clean last run, the tool runs at most twice, the method raises only from the
  kernel-name script after a clean CSV run or from the Unicode conversions of the
  standard error outside the \<open>try\<close>; for a shell whose outcome depends on the
  command only and which changes no file (\<open>static_shell\<close>; in particular
  \<open>set_linux_name.sh\<close> succeeds and leaves the reports as the tool wrote them), the
  exact verdict and file effect of a report run, and of \<open>process_report\<close>. Plugin: invariants of reachable states by rule
  induction (the global checker is the one of the last \<open>init\<close>; enabled implies
  every package since \<open>init\<close> was complete), the \<open>AttributeError\<close> before
  \<open>init\<close>.

  \<^bold>\<open>Findings.\<close> A package without patch files disables the plugin for the
  rest of the build (line 89); a lower-case \<open>cve\<close> before the id in a patch name
  makes the parse start there, dropping or garbling the id (line 242); at most one
  id per patch name is reported (line 250); \<open>process_report\<close> discards the CSV
  run's verdict (lines 105/109), so a failed CSV run crashes the plugin with
  \<open>IOError\<close> or reports stale results; a failed run whose standard error is not
  ASCII crashes the plugin with \<open>UnicodeEncodeError\<close> at line 211 instead of
  reporting the error.

  \<^bold>\<open>Bounds and fuel.\<close> No fuel is needed: every loop of the program is over a
  finite list (patches, aliases, packages, CSV lines) and is modelled by structural
  recursion; \<open>re.findall\<close> is a \<open>function\<close> with a measure on the length. The
  retry of the tool is a single unrolled step, as in the code.

  \<^bold>\<open>Not modelled.\<close> The external programs (\<open>cve-check-tool\<close>, \<open>which\<close>,
  \<open>set_linux_name.sh\<close>) are the shell oracle, not code of this repository. The
  \<open>lxml\<close> import fallback and XML serialisation (\<open>tree.write\<close>) are modelled as
  storing the element tree. A decoded unicode string is kept as its UTF-8 bytes:
  where the program uses one it is empty or ASCII, which decoding leaves unchanged.
  The payload of an exception stands for \<open>str(sys.exc_info())\<close>. Failures of
  \<open>open\<close> on the log and batch files (permissions, missing directories) are not
  modelled; nor is a run under Python 3, where the file's mixed tabs (line 205)
  are a \<open>TabError\<close>.
\<close>

text \<open>C8: A whole host session with a tool whose outcome depends on its command line only and which changes no file (so \<open>set_linux_name.sh\<close> succeeds and leaves the reports alone): after \<open>init\<close> finds the tool and every package is complete, the batch file holds exactly the records of the packages in build order; \<open>process_report\<close> then deletes it and writes the XML report of the CSV report the tool produced.\<close>

theorem session_end_to_end:
  fixes cfg :: isa_config and f :: "string \<Rightarrow> string \<times> string \<times> int"
  assumes c_def: "c = (checker_of_config cfg)\<lparr>initialized := True\<rparr>"
    and tool: "fst (f ''which cve-check-tool'') \<noteq> []"
    and fresh: "files w0 (faux_path c) = None"
    and pkgs: "pkgs \<noteq> []" "list_all pkg_args_ok pkgs" "list_all pkg_fields_ok pkgs"
    and paths: "distinct [faux_path c, logfile c, csv_report_name c, html_report_name c]"
    and clean: "tool_verdict (f (tool_args c ''csv'')) = Inr []" "tool_verdict (f (tool_args c ''html'')) = Inr []"
  shows "\<exists>w1 w2. plugin_run (static_shell f) None (Init cfg # map ProcessPackage pkgs) w0 = (Inr (Some c), w1)
     \<and> parse_faux (file_text w1 (faux_path c)) = Some (concat (map pkg_records pkgs))
     \<and> plugin_run (static_shell f) (Some c) [ProcessReport] w1 = (Inr (Some c), w2)
     \<and> \<not> isfile (faux_path c) w2
     \<and> xml_out w2 (csv_report_name c @ ''.xml'') = Some (csv_xml (fst (f (tool_args c ''csv''))))"
proof -
  obtain wa where a: "plugin_step (static_shell f) (Init cfg) None w0 = (Inr (None, Some c), wa)"
      and fa: "files_but (logfile (checker_of_config cfg)) w0 wa"
    using init_static [of f cfg w0] tool unfolding c_def by blast
  have lf: "logfile c = logfile (checker_of_config cfg)" by (simp add: c_def)
  have "file_text wa (faux_path c) = []"
    using fa fresh paths lf by (simp add: files_but_def file_text_def)
  moreover have "initialized c" "logfile c \<noteq> faux_path c"
    using paths by (auto simp: c_def)
  ultimately obtain c' w1 where p: "process_packages c pkgs wa = (Inr c', w1)"
      and pf: "initialized c'"
      and ft0: "file_text w1 (faux_path c) = concat (map pkg_faux_text (takeWhile pkg_args_ok pkgs))"
    using process_packages_run [of c pkgs wa] pkgs(2) by auto
  have "takeWhile pkg_args_ok pkgs = pkgs"
    using pkgs(2) by (simp add: list_all_iff)
  with ft0 have ft: "file_text w1 (faux_path c) = concat (map pkg_faux_text pkgs)"
    by simp
  from process_packages_Inr [OF p] pf have c': "c' = c"
    by (auto simp: c_def)
  have run1: "plugin_run (static_shell f) None (Init cfg # map ProcessPackage pkgs) w0 = (Inr (Some c), w1)"
    using a p c' by (simp add: bindp_def plugin_run_packages)
  have "pkg_faux_text (hd pkgs) \<noteq> []"
    by (simp add: pkg_faux_text_def faux_line_def Let_def)
  with ft pkgs(1) have "isfile (faux_path c) w1"
    by (cases pkgs) (auto simp: isfile_def file_text_def split: option.splits)
  then obtain w2 where "plugin_run (static_shell f) (Some c) [ProcessReport] w1 = (Inr (Some c), w2)"
      "\<not> isfile (faux_path c) w2"
      "xml_out w2 (csv_report_name c @ ''.xml'') = Some (csv_xml (fst (f (tool_args c ''csv''))))"
    using report_static [OF _ \<open>initialized c\<close> paths clean] by blast
  with run1 ft pkgs(3) show ?thesis
    by (simp add: parse_faux_packages)
qed

theorem session_end_to_end_witness:
  "demo_checker = (checker_of_config demo_config)\<lparr>initialized := True\<rparr>
   \<and> fst (demo_tool_ok ''which cve-check-tool'') \<noteq> []
   \<and> files demo_world (faux_path demo_checker) = None
   \<and> [demo_pkg] \<noteq> [] \<and> list_all pkg_args_ok [demo_pkg] \<and> list_all pkg_fields_ok [demo_pkg]
   \<and> distinct [faux_path demo_checker, logfile demo_checker, csv_report_name demo_checker, html_report_name demo_checker]
   \<and> tool_verdict (demo_tool_ok (tool_args demo_checker ''csv'')) = Inr []
   \<and> tool_verdict (demo_tool_ok (tool_args demo_checker ''html'')) = Inr []
   \<and> (\<exists>w1 w2. plugin_run (static_shell demo_tool_ok) None (Init demo_config # map ProcessPackage [demo_pkg]) demo_world
          = (Inr (Some demo_checker), w1)
     \<and> parse_faux (file_text w1 (faux_path demo_checker)) = Some (concat (map pkg_records [demo_pkg]))
     \<and> plugin_run (static_shell demo_tool_ok) (Some demo_checker) [ProcessReport] w1 = (Inr (Some demo_checker), w2)
     \<and> \<not> isfile (faux_path demo_checker) w2
     \<and> xml_out w2 (csv_report_name demo_checker @ ''.xml'')
          = Some (csv_xml (fst (demo_tool_ok (tool_args demo_checker ''csv'')))))"
proof -
  have h: "demo_checker = (checker_of_config demo_config)\<lparr>initialized := True\<rparr>"
    "fst (demo_tool_ok ''which cve-check-tool'') \<noteq> []"
    "files demo_world (faux_path demo_checker) = None"
    "[demo_pkg] \<noteq> []" "list_all pkg_args_ok [demo_pkg]" "list_all pkg_fields_ok [demo_pkg]"
    "distinct [faux_path demo_checker, logfile demo_checker, csv_report_name demo_checker, html_report_name demo_checker]"
    "tool_verdict (demo_tool_ok (tool_args demo_checker ''csv'')) = Inr []"
    "tool_verdict (demo_tool_ok (tool_args demo_checker ''html'')) = Inr []"
    by code_simp+
  show ?thesis
    using h session_end_to_end [OF h] by blast
qed

end
